theory Spec2Isabelle
  imports Complex_Main "HOL-Library.AList"
begin

section \<open>Python values used by gan.py\<close>

text \<open>
  Exceptions are values. The string carries the name or message that the raising
  statement evaluates. \<open>EngineFailure\<close> is any failure of the computation engine
  itself (shape mismatch, numeric instability); it is kept apart from the exceptions
  that gan.py, numpy and the feed validation raise.
\<close>

datatype error =
    AssertionError string
  | ValueError string
  | TypeError string
  | NameError string
  | KeyError string
  | ZeroDivisionError string
  | IndexError string
  | EngineFailure string

text \<open>
  A numpy array, as far as gan.py looks at it: either rank 0, or a list of rows along the
  first axis together with the remaining dimensions. A row holds the elements of one
  point, flattened. \<open>feed.shape\<close> is \<open>shape\<close>, \<open>len(a)\<close> is the number of rows.
\<close>

datatype 'a ndarray = Scalar 'a | Array "nat list" "'a list list"

fun shape :: "'a ndarray \<Rightarrow> nat list" where
  "shape (Scalar x) = []"
| "shape (Array ts rs) = length rs # ts"

text \<open>Python slice bounds: a negative bound counts from the end, every bound is clipped.\<close>

definition py_bound :: "int \<Rightarrow> nat \<Rightarrow> nat" where
  "py_bound i n = (if i < 0 then nat (max (i + int n) 0) else min (nat i) n)"

definition py_slice :: "'b list \<Rightarrow> int \<Rightarrow> int option \<Rightarrow> 'b list" where
  "py_slice xs a b =
     (let n = length xs;
          lo = py_bound a n;
          hi = (case b of None \<Rightarrow> n | Some j \<Rightarrow> py_bound j n)
      in take (hi - lo) (drop lo xs))"

definition xrange :: "int \<Rightarrow> int list" where
  "xrange n = map int [0..<nat n]"

text \<open>\<open>np.reshape(res, [-1, 1])\<close> on an array of shape \<open>(n,)\<close>: shape \<open>(n, 1)\<close>, same elements.\<close>

fun reshape_column :: "'a ndarray \<Rightarrow> 'a ndarray" where
  "reshape_column (Array [] rs) = Array [1] rs"
| "reshape_column a = a"

text \<open>
  \<open>np.vstack\<close>: every array is first made at least two-dimensional (\<open>()\<close> becomes
  \<open>(1,1)\<close>, \<open>(n,)\<close> becomes \<open>(1,n)\<close>), then they are concatenated along the first
  axis, which needs equal ranks and equal remaining dimensions. An empty list raises.
\<close>

fun atleast_2d :: "'a ndarray \<Rightarrow> nat list \<times> 'a list list" where
  "atleast_2d (Scalar x) = ([1], [[x]])"
| "atleast_2d (Array [] rs) = ([length rs], [concat rs])"
| "atleast_2d (Array (t # ts) rs) = (t # ts, rs)"

fun np_vstack :: "'a ndarray list \<Rightarrow> error + 'a ndarray" where
  "np_vstack [] = Inl (ValueError ''need at least one array to concatenate'')"
| "np_vstack (a # as) =
     (let bs = map atleast_2d (a # as);
          ts = fst (atleast_2d a)
      in if list_all (\<lambda>b. fst b = ts) bs
         then Inr (Array ts (concat (map snd bs)))
         else Inl (ValueError ''all the input array dimensions except for the concatenation axis must match exactly''))"

section \<open>The computation engine\<close>

text \<open>
  What gan.py uses as a key of a \<open>feed_dict\<close>: a placeholder of the graph, or (in
  UnrolledGan, where \<open>is_training_ph = True\<close>) a Python bool; \<open>None\<close> is the default of
  \<open>placeholder2\<close>. What it feeds: an array or a bool.
\<close>

datatype handle = Placeholder string | PyBool bool | PyNone

datatype 'a feed_value = FeedArray "'a ndarray" | FeedBool bool

text \<open>The nodes of the graph that gan.py stores in the model and later runs.\<close>

datatype node = G_node | C_training_node | D_optim_node | G_optim_node | C_optim_node | Init_node

type_synonym 'a feed_dict = "(handle \<times> 'a feed_value) list"

text \<open>
  The engine's evaluation of a node under a feed is a parameter: a function of the world
  (the session's variables among it) that returns a value or fails, and the new world.
\<close>

type_synonym ('w, 'a) evaluator = "'w \<Rightarrow> node \<Rightarrow> 'a feed_dict \<Rightarrow> (string + 'a ndarray) \<times> 'w"

fun is_tensor :: "handle \<Rightarrow> bool" where
  "is_tensor (Placeholder n) = True"
| "is_tensor h = False"

text \<open>
  \<open>session.run(fetch, feed_dict=...)\<close>. The one check of the engine that is kept is the
  validation of the feed: a key that is not a tensor of the graph raises \<open>TypeError\<close>
  before anything is evaluated.
\<close>

definition session_run ::
  "('w, 'a) evaluator \<Rightarrow> node \<Rightarrow> 'a feed_dict \<Rightarrow> 'w \<Rightarrow> (error + 'a ndarray) \<times> 'w" where
  "session_run ev fetch fd w =
     (if list_all (\<lambda>kv. is_tensor (fst kv)) fd
      then (case ev w fetch fd of
              (Inl msg, w') \<Rightarrow> (Inl (EngineFailure msg), w')
            | (Inr res, w') \<Rightarrow> (Inr res, w'))
      else (Inl (TypeError ''Cannot interpret feed_dict key as Tensor''), w))"

text \<open>The dict literal \<open>{k1: v1, k2: v2}\<close>: the second entry replaces the first on equal keys.\<close>

definition dict2 :: "handle \<Rightarrow> 'a feed_value \<Rightarrow> handle \<Rightarrow> 'a feed_value \<Rightarrow> 'a feed_dict" where
  "dict2 k1 v1 k2 v2 = AList.update k2 v2 [(k1, v1)]"

section \<open>Gan._run_batch\<close>

text \<open>The configuration, \<open>opts['batch_size']\<close> and so on: one field per key that is read.\<close>

record opts =
  opts_tf_run_batch_size :: int
  opts_batch_size :: int
  opts_gan_epoch_num :: int
  opts_mixture_c_epoch_num :: int
  opts_d_steps :: int
  opts_g_steps :: int
  opts_unrolling_steps :: int
  opts_early_stop :: int
  opts_plot_every :: int
  opts_verbose :: bool

text \<open>The body of the loop over \<open>idx\<close>: one \<open>session.run\<close>, with the four feeds of the source.\<close>

definition run_chunk ::
  "('w, 'a) evaluator \<Rightarrow> node \<Rightarrow> handle \<Rightarrow> nat list \<Rightarrow> 'a list list \<Rightarrow> handle \<Rightarrow>
   'a feed_value option \<Rightarrow> int \<Rightarrow> int \<Rightarrow> int \<Rightarrow> 'w \<Rightarrow> (error + 'a ndarray) \<times> 'w" where
  "run_chunk ev operation placeholder ts rs placeholder2 feed2 batch_size batches_num idx w =
     (if idx = batches_num - 1 then
        (case feed2 of
           None \<Rightarrow> session_run ev operation
             [(placeholder, FeedArray (Array ts (py_slice rs (idx * batch_size) None)))] w
         | Some f2 \<Rightarrow> session_run ev operation
             (dict2 placeholder (FeedArray (Array ts (py_slice rs (idx * batch_size) None)))
                    placeholder2 f2) w)
      else
        (case feed2 of
           None \<Rightarrow> session_run ev operation
             [(placeholder, FeedArray (Array ts
                (py_slice rs (idx * batch_size) (Some ((idx + 1) * batch_size)))))] w
         | Some f2 \<Rightarrow> session_run ev operation
             (dict2 placeholder (FeedArray (Array ts
                (py_slice rs (idx * batch_size) (Some ((idx + 1) * batch_size)))))
                    placeholder2 f2) w))"

fun run_batch_loop ::
  "('w, 'a) evaluator \<Rightarrow> node \<Rightarrow> handle \<Rightarrow> nat list \<Rightarrow> 'a list list \<Rightarrow> handle \<Rightarrow>
   'a feed_value option \<Rightarrow> int \<Rightarrow> int \<Rightarrow> int list \<Rightarrow> 'w \<Rightarrow> (error + 'a ndarray list) \<times> 'w" where
  "run_batch_loop ev operation placeholder ts rs placeholder2 feed2 batch_size batches_num [] w =
     (Inr [], w)"
| "run_batch_loop ev operation placeholder ts rs placeholder2 feed2 batch_size batches_num
     (idx # idxs) w =
     (case run_chunk ev operation placeholder ts rs placeholder2 feed2 batch_size batches_num idx w of
        (Inl e, w') \<Rightarrow> (Inl e, w')
      | (Inr res, w') \<Rightarrow>
          (case run_batch_loop ev operation placeholder ts rs placeholder2 feed2
                  batch_size batches_num idxs w' of
             (Inl e, w'') \<Rightarrow> (Inl e, w'')
           | (Inr result, w'') \<Rightarrow>
               (Inr ((if length (shape res) = 1 then reshape_column res else res) # result), w'')))"

definition run_batch ::
  "('w, 'a) evaluator \<Rightarrow> opts \<Rightarrow> node \<Rightarrow> handle \<Rightarrow> 'a ndarray \<Rightarrow> handle \<Rightarrow>
   'a feed_value option \<Rightarrow> 'w \<Rightarrow> (error + 'a ndarray) \<times> 'w" where
  "run_batch ev opts operation placeholder feed placeholder2 feed2 w =
     (case feed of
        Scalar x \<Rightarrow> (Inl (AssertionError ''Empry feed.''), w)
      | Array ts rs \<Rightarrow>
          (let num_points = int (length rs);
               batch_size = opts_tf_run_batch_size opts
           in if batch_size = 0 then (Inl (ZeroDivisionError ''float division by zero''), w)
              else
                (let batches_num = \<lceil>real_of_int num_points / real_of_int batch_size\<rceil>
                 in case run_batch_loop ev operation placeholder ts rs placeholder2 feed2
                           batch_size batches_num (xrange batches_num) w of
                      (Inl e, w') \<Rightarrow> (Inl e, w')
                    | (Inr result, w') \<Rightarrow>
                        (case np_vstack result of
                           Inl e \<Rightarrow> (Inl e, w')
                         | Inr res \<Rightarrow>
                             if int (hd (shape res)) = num_points then (Inr res, w')
                             else (Inl (AssertionError ''''), w')))))"


text \<open>
  The words of the specification for the same computation without chunks: one
  \<open>session.run\<close> on the whole input, with the same second feed. And the rows that the
  loop feeds at index \<open>idx\<close>.
\<close>

definition unchunked ::
  "('w, 'a) evaluator \<Rightarrow> node \<Rightarrow> handle \<Rightarrow> 'a ndarray \<Rightarrow> handle \<Rightarrow>
   'a feed_value option \<Rightarrow> 'w \<Rightarrow> (error + 'a ndarray) \<times> 'w" where
  "unchunked ev operation placeholder feed placeholder2 feed2 w =
     (case feed2 of
        None \<Rightarrow> session_run ev operation [(placeholder, FeedArray feed)] w
      | Some f2 \<Rightarrow> session_run ev operation (dict2 placeholder (FeedArray feed) placeholder2 f2) w)"

definition chunk_rows :: "'b list \<Rightarrow> int \<Rightarrow> int \<Rightarrow> int \<Rightarrow> 'b list" where
  "chunk_rows rs batch_size batches_num idx =
     (if idx = batches_num - 1 then py_slice rs (idx * batch_size) None
      else py_slice rs (idx * batch_size) (Some ((idx + 1) * batch_size)))"

section \<open>State, collaborators and control flow\<close>

text \<open>
  The world outside the model object: the session (variables, random generator, plots),
  which only the collaborators read and write, and the number of signals that the
  progress bar has received (\<open>pbar.bam()\<close>).
\<close>

record 'w state =
  session :: 'w
  signals :: nat

definition then_do ::
  "('s \<Rightarrow> (error + 'x) \<times> 's) \<Rightarrow> ('x \<Rightarrow> 's \<Rightarrow> (error + 'y) \<times> 's) \<Rightarrow> 's \<Rightarrow> (error + 'y) \<times> 's" where
  "then_do m f s = (case m s of (Inl e, s') \<Rightarrow> (Inl e, s') | (Inr x, s') \<Rightarrow> f x s')"

definition on_session ::
  "('w \<Rightarrow> (error + 'x) \<times> 'w) \<Rightarrow> 'w state \<Rightarrow> (error + 'x) \<times> 'w state" where
  "on_session f s = (case f (session s) of (r, w') \<Rightarrow> (r, s\<lparr>session := w'\<rparr>))"

definition bam :: "'w state \<Rightarrow> (error + unit) \<times> 'w state" where
  "bam s = (Inr (), s\<lparr>signals := Suc (signals s)\<rparr>)"

text \<open>\<open>for i in xs: c = body(i, c)\<close>, where \<open>c\<close> is what the loop carries on.\<close>

fun for_loop ::
  "'i list \<Rightarrow> ('i \<Rightarrow> 'c \<Rightarrow> 's \<Rightarrow> (error + 'c) \<times> 's) \<Rightarrow> 'c \<Rightarrow> 's \<Rightarrow> (error + 'c) \<times> 's" where
  "for_loop [] body c s = (Inr c, s)"
| "for_loop (i # is) body c s = then_do (body i c) (for_loop is body) s"

text \<open>The same with \<open>break\<close>: the body also says whether the loop is left after it.\<close>

fun for_loop_break ::
  "'i list \<Rightarrow> ('i \<Rightarrow> 'c \<Rightarrow> 's \<Rightarrow> (error + 'c \<times> bool) \<times> 's) \<Rightarrow> 'c \<Rightarrow> 's \<Rightarrow> (error + 'c) \<times> 's" where
  "for_loop_break [] body c s = (Inr c, s)"
| "for_loop_break (i # is) body c s =
     then_do (body i c)
       (\<lambda>cb. if snd cb then (\<lambda>s'. (Inr (fst cb), s')) else for_loop_break is body (fst cb)) s"

text \<open>The dataset collaborator: \<open>num_points\<close>, \<open>data_shape\<close> and the points.\<close>

record 'a dataset =
  data_num_points :: int
  data_data_shape :: "nat list"
  data_data :: "'a ndarray"

text \<open>
  The collaborators: the engine's evaluator, what \<open>np.random.choice\<close> does once its
  arguments are accepted, \<open>utils.generate_noise\<close> and \<open>Metrics.make_plots\<close>. The prefix of
  a plot is its format with the epoch and the minibatch.
\<close>

record ('w, 'a) env =
  env_evaluator :: "('w, 'a) evaluator"
  env_sampler :: "'w \<Rightarrow> int \<Rightarrow> int \<Rightarrow> real list option \<Rightarrow> (error + nat list) \<times> 'w"
  env_generate_noise :: "'w \<Rightarrow> opts \<Rightarrow> int \<Rightarrow> (error + 'a ndarray) \<times> 'w"
  env_make_plots ::
    "'w \<Rightarrow> opts \<Rightarrow> int \<Rightarrow> 'a ndarray option \<Rightarrow> 'a ndarray \<Rightarrow> string \<times> int \<times> int \<Rightarrow> (error + unit) \<times> 'w"

text \<open>
  \<open>np.random.choice(a, sz, replace=False, p=p)\<close>. Without \<open>p\<close> and with a positive
  population, a sample larger than the population raises \<open>ValueError\<close>; everything else
  is the sampler's.
\<close>

definition np_random_choice ::
  "('w, 'a) env \<Rightarrow> int \<Rightarrow> int \<Rightarrow> real list option \<Rightarrow> 'w \<Rightarrow> (error + nat list) \<times> 'w" where
  "np_random_choice env a sz p w =
     (if p = None \<and> 0 < a \<and> a < sz
      then (Inl (ValueError ''Cannot take a larger sample than population when replace=False''), w)
      else env_sampler env w a sz p)"

definition generate_noise ::
  "('w, 'a) env \<Rightarrow> opts \<Rightarrow> int \<Rightarrow> 'w \<Rightarrow> (error + 'a ndarray) \<times> 'w" where
  "generate_noise env opts num w = env_generate_noise env w opts num"

definition make_plots ::
  "('w, 'a) env \<Rightarrow> opts \<Rightarrow> int \<Rightarrow> 'a ndarray option \<Rightarrow> 'a ndarray \<Rightarrow> string \<times> int \<times> int \<Rightarrow>
   'w \<Rightarrow> (error + unit) \<times> 'w" where
  "make_plots env opts counter real_points fake_points prefix w =
     env_make_plots env w opts counter real_points fake_points prefix"

text \<open>\<open>a[ids]\<close> with an index array, \<open>a[lo:hi]\<close> and \<open>len(a)\<close>; rank 0 raises.\<close>

definition nd_take :: "'a ndarray \<Rightarrow> nat list \<Rightarrow> error + 'a ndarray" where
  "nd_take a ids =
     (case a of
        Scalar x \<Rightarrow> Inl (IndexError ''too many indices for array'')
      | Array ts rs \<Rightarrow>
          if list_all (\<lambda>i. i < length rs) ids then Inr (Array ts (map (\<lambda>i. rs ! i) ids))
          else Inl (IndexError ''index out of bounds''))"

definition nd_slice :: "'a ndarray \<Rightarrow> int \<Rightarrow> int \<Rightarrow> error + 'a ndarray" where
  "nd_slice a lo hi =
     (case a of
        Scalar x \<Rightarrow> Inl (IndexError ''too many indices for array'')
      | Array ts rs \<Rightarrow> Inr (Array ts (py_slice rs lo (Some hi))))"

definition nd_len :: "'a ndarray \<Rightarrow> error + int" where
  "nd_len a =
     (case a of
        Scalar x \<Rightarrow> Inl (TypeError ''len() of unsized object'')
      | Array ts rs \<Rightarrow> Inr (int (length rs)))"

definition pure :: "error + 'x \<Rightarrow> 's \<Rightarrow> (error + 'x) \<times> 's" where
  "pure r s = (r, s)"

text \<open>Python 2 \<open>a / b\<close> on ints: floor division, \<open>ZeroDivisionError\<close> on zero.\<close>

definition py_div :: "int \<Rightarrow> int \<Rightarrow> error + int" where
  "py_div a b = (if b = 0 then Inl (ZeroDivisionError ''integer division or modulo by zero'') else Inr (a div b))"

definition py_mod :: "int \<Rightarrow> int \<Rightarrow> error + int" where
  "py_mod a b = (if b = 0 then Inl (ZeroDivisionError ''integer division or modulo by zero'') else Inr (a mod b))"

section \<open>The model object\<close>

datatype gan_class = Gan | ToyGan | ImageGan | UnrolledGan

text \<open>
  The symbolic tensors that UnrolledGan rewrites: the reference to a variable (its name
  is the variable's), the value read from a variable, any other tensor without inputs
  that matter here, and an operation applied to input tensors.
\<close>

datatype tensor = Ref string | Read string | Leaf string | Apply string "tensor list"

record 'a gan =
  self_class :: gan_class
  self_trained :: bool
  self_data :: "'a dataset"
  self_data_weights :: "real list"
  self_noise_for_plots :: "'a ndarray"
  self_real_points_ph :: handle
  self_fake_points_ph :: handle
  self_noise_ph :: handle
  self_is_training_ph :: handle
  self_G :: node
  self_d_loss :: tensor
  self_g_loss :: tensor
  self_c_training :: node
  self_g_optim :: node
  self_d_optim :: node
  self_c_optim :: node

text \<open>A dict literal with three entries.\<close>

definition dict3 ::
  "handle \<Rightarrow> 'a feed_value \<Rightarrow> handle \<Rightarrow> 'a feed_value \<Rightarrow> handle \<Rightarrow> 'a feed_value \<Rightarrow> 'a feed_dict" where
  "dict3 k1 v1 k2 v2 k3 v3 = AList.update k3 v3 (dict2 k1 v1 k2 v2)"

text \<open>\<open>_ = self._session.run(optim, feed_dict=fd)\<close>: the value is dropped.\<close>

definition run_update :: "('w, 'a) env \<Rightarrow> node \<Rightarrow> 'a feed_dict \<Rightarrow> 'w \<Rightarrow> (error + unit) \<times> 'w" where
  "run_update env optim fd = then_do (session_run (env_evaluator env) optim fd) (\<lambda>_. pure (Inr ()))"

section \<open>ToyGan\<close>

definition ToyGan_minibatch ::
  "('w, 'a) env \<Rightarrow> 'a gan \<Rightarrow> opts \<Rightarrow> int \<Rightarrow> int \<Rightarrow> int \<Rightarrow> 'w \<Rightarrow> (error + int) \<times> 'w" where
  "ToyGan_minibatch env self opts epoch idx counter =
     then_do (np_random_choice env (data_num_points (self_data self)) (opts_batch_size opts)
                (Some (self_data_weights self)))
     (\<lambda>data_ids. then_do (pure (nd_take (data_data (self_data self)) data_ids))
     (\<lambda>batch_images. then_do (generate_noise env opts (opts_batch_size opts))
     (\<lambda>batch_noise. then_do
        (for_loop (xrange (opts_d_steps opts))
           (\<lambda>iter u. run_update env (self_d_optim self)
              (dict2 (self_real_points_ph self) (FeedArray batch_images)
                     (self_noise_ph self) (FeedArray batch_noise))) ())
     (\<lambda>_. then_do
        (for_loop (xrange (opts_g_steps opts))
           (\<lambda>iter u. run_update env (self_g_optim self)
              [(self_noise_ph self, FeedArray batch_noise)]) ())
     (\<lambda>_. if opts_verbose opts \<and> (counter + 1) mod 100 = 0
          then then_do (pure (nd_slice (self_noise_for_plots self) 0 300))
               (\<lambda>noise. then_do (run_batch (env_evaluator env) opts (self_G self) (self_noise_ph self)
                                   noise PyNone None)
               (\<lambda>points_to_plot. then_do (pure (nd_slice (data_data (self_data self)) 0 300))
               (\<lambda>real_points. then_do (make_plots env opts (counter + 1) (Some real_points)
                                        points_to_plot (''gan_e%d_mb%d_'', epoch, idx))
               (\<lambda>_. pure (Inr (counter + 1))))))
          else pure (Inr (counter + 1)))))))"

definition ToyGan_train_internal ::
  "('w, 'a) env \<Rightarrow> 'a gan \<Rightarrow> opts \<Rightarrow> 'w state \<Rightarrow> (error + unit) \<times> 'w state" where
  "ToyGan_train_internal env self opts =
     then_do (pure (py_div (data_num_points (self_data self)) (opts_batch_size opts)))
     (\<lambda>batches_num. then_do
        (for_loop (xrange (opts_gan_epoch_num opts))
           (\<lambda>epoch counter. then_do
              (on_session (for_loop (xrange batches_num) (ToyGan_minibatch env self opts epoch) counter))
              (\<lambda>counter'. then_do bam (\<lambda>_. pure (Inr counter'))))
           0)
     (\<lambda>_. pure (Inr ())))"

definition ToyGan_sample_internal ::
  "('w, 'a) env \<Rightarrow> 'a gan \<Rightarrow> opts \<Rightarrow> int \<Rightarrow> 'w \<Rightarrow> (error + 'a ndarray) \<times> 'w" where
  "ToyGan_sample_internal env self opts num =
     then_do (generate_noise env opts num)
     (\<lambda>noise. run_batch (env_evaluator env) opts (self_G self) (self_noise_ph self) noise PyNone None)"

definition ToyGan_mixture_minibatch ::
  "('w, 'a) env \<Rightarrow> 'a gan \<Rightarrow> opts \<Rightarrow> 'a ndarray \<Rightarrow> int \<Rightarrow> unit \<Rightarrow> 'w \<Rightarrow> (error + unit) \<times> 'w" where
  "ToyGan_mixture_minibatch env self opts fake_images idx u =
     then_do (pure (nd_len fake_images))
     (\<lambda>n. then_do (np_random_choice env n (opts_batch_size opts) None)
     (\<lambda>ids. then_do (pure (nd_take fake_images ids))
     (\<lambda>batch_fake_images. then_do
        (np_random_choice env (data_num_points (self_data self)) (opts_batch_size opts) None)
     (\<lambda>ids. then_do (pure (nd_take (data_data (self_data self)) ids))
     (\<lambda>batch_real_images. run_update env (self_c_optim self)
        (dict2 (self_real_points_ph self) (FeedArray batch_real_images)
               (self_fake_points_ph self) (FeedArray batch_fake_images)))))))"

definition ToyGan_train_mixture_discriminator_internal ::
  "('w, 'a) env \<Rightarrow> 'a gan \<Rightarrow> opts \<Rightarrow> 'a ndarray \<Rightarrow> 'w state \<Rightarrow> (error + 'a ndarray) \<times> 'w state" where
  "ToyGan_train_mixture_discriminator_internal env self opts fake_images =
     then_do (pure (py_div (data_num_points (self_data self)) (opts_batch_size opts)))
     (\<lambda>batches_num. then_do
        (for_loop (xrange (opts_mixture_c_epoch_num opts))
           (\<lambda>epoch u. then_do
              (on_session (for_loop (xrange batches_num)
                 (ToyGan_mixture_minibatch env self opts fake_images) ()))
              (\<lambda>_. bam))
           ())
     (\<lambda>_. on_session (run_batch (env_evaluator env) opts (self_c_training self)
                        (self_real_points_ph self) (data_data (self_data self)) PyNone None)))"

section \<open>ImageGan\<close>

definition ImageGan_minibatch ::
  "('w, 'a) env \<Rightarrow> 'a gan \<Rightarrow> opts \<Rightarrow> int \<Rightarrow> int \<Rightarrow> int \<Rightarrow> 'w \<Rightarrow> (error + int \<times> bool) \<times> 'w" where
  "ImageGan_minibatch env self opts epoch idx counter =
     then_do (np_random_choice env (data_num_points (self_data self)) (opts_batch_size opts)
                (Some (self_data_weights self)))
     (\<lambda>data_ids. then_do (pure (nd_take (data_data (self_data self)) data_ids))
     (\<lambda>batch_images. then_do (generate_noise env opts (opts_batch_size opts))
     (\<lambda>batch_noise. then_do
        (for_loop (xrange (opts_d_steps opts))
           (\<lambda>iter u. run_update env (self_d_optim self)
              (dict3 (self_real_points_ph self) (FeedArray batch_images)
                     (self_noise_ph self) (FeedArray batch_noise)
                     (self_is_training_ph self) (FeedBool True))) ())
     (\<lambda>_. then_do
        (for_loop (xrange (opts_g_steps opts))
           (\<lambda>iter u. run_update env (self_g_optim self)
              (dict2 (self_noise_ph self) (FeedArray batch_noise)
                     (self_is_training_ph self) (FeedBool True))) ())
     (\<lambda>_. then_do
        (if opts_verbose opts
         then then_do (pure (py_mod (counter + 1) (opts_plot_every opts)))
              (\<lambda>r. if r = 0
                 then then_do (pure (nd_slice (self_noise_for_plots self) 0 16))
                      (\<lambda>noise. then_do (run_batch (env_evaluator env) opts (self_G self)
                                          (self_noise_ph self) noise
                                          (self_is_training_ph self) (Some (FeedBool False)))
                      (\<lambda>points_to_plot. make_plots env opts (counter + 1) None points_to_plot
                                          (''sample_e%02d_mb%05d_'', epoch, idx)))
                 else pure (Inr ()))
         else pure (Inr ()))
     (\<lambda>_. pure (Inr (counter + 1,
                     opts_early_stop opts > 0 \<and> counter + 1 > opts_early_stop opts))))))))"

definition ImageGan_train_internal ::
  "('w, 'a) env \<Rightarrow> 'a gan \<Rightarrow> opts \<Rightarrow> 'w state \<Rightarrow> (error + unit) \<times> 'w state" where
  "ImageGan_train_internal env self opts =
     then_do (pure (py_div (data_num_points (self_data self)) (opts_batch_size opts)))
     (\<lambda>batches_num. then_do
        (for_loop (xrange (opts_gan_epoch_num opts))
           (\<lambda>epoch counter. then_do
              (on_session (for_loop_break (xrange batches_num)
                 (ImageGan_minibatch env self opts epoch) counter))
              (\<lambda>counter'. then_do bam (\<lambda>_. pure (Inr counter'))))
           0)
     (\<lambda>_. pure (Inr ())))"

definition ImageGan_sample_internal ::
  "('w, 'a) env \<Rightarrow> 'a gan \<Rightarrow> opts \<Rightarrow> int \<Rightarrow> 'w \<Rightarrow> (error + 'a ndarray) \<times> 'w" where
  "ImageGan_sample_internal env self opts num =
     then_do (generate_noise env opts num)
     (\<lambda>noise. run_batch (env_evaluator env) opts (self_G self) (self_noise_ph self) noise
                (self_is_training_ph self) (Some (FeedBool False)))"

definition ImageGan_mixture_minibatch ::
  "('w, 'a) env \<Rightarrow> 'a gan \<Rightarrow> opts \<Rightarrow> 'a ndarray \<Rightarrow> int \<Rightarrow> unit \<Rightarrow> 'w \<Rightarrow> (error + unit) \<times> 'w" where
  "ImageGan_mixture_minibatch env self opts fake_images idx u =
     then_do (pure (nd_len fake_images))
     (\<lambda>n. then_do (np_random_choice env n (opts_batch_size opts) None)
     (\<lambda>ids. then_do (pure (nd_take fake_images ids))
     (\<lambda>batch_fake_images. then_do
        (np_random_choice env (data_num_points (self_data self)) (opts_batch_size opts) None)
     (\<lambda>ids. then_do (pure (nd_take (data_data (self_data self)) ids))
     (\<lambda>batch_real_images. run_update env (self_c_optim self)
        (dict3 (self_real_points_ph self) (FeedArray batch_real_images)
               (self_fake_points_ph self) (FeedArray batch_fake_images)
               (self_is_training_ph self) (FeedBool True)))))))"

definition ImageGan_train_mixture_discriminator_internal ::
  "('w, 'a) env \<Rightarrow> 'a gan \<Rightarrow> opts \<Rightarrow> 'a ndarray \<Rightarrow> 'w state \<Rightarrow> (error + 'a ndarray) \<times> 'w state" where
  "ImageGan_train_mixture_discriminator_internal env self opts fake_images =
     then_do (pure (py_div (data_num_points (self_data self)) (opts_batch_size opts)))
     (\<lambda>batches_num. then_do
        (for_loop (xrange (opts_mixture_c_epoch_num opts))
           (\<lambda>epoch u. then_do
              (on_session (for_loop (xrange batches_num)
                 (ImageGan_mixture_minibatch env self opts fake_images) ()))
              (\<lambda>_. bam))
           ())
     (\<lambda>_. on_session (run_batch (env_evaluator env) opts (self_c_training self)
                        (self_real_points_ph self) (data_data (self_data self))
                        (self_is_training_ph self) (Some (FeedBool False)))))"

section \<open>UnrolledGan\<close>

definition UnrolledGan_minibatch ::
  "('w, 'a) env \<Rightarrow> 'a gan \<Rightarrow> opts \<Rightarrow> int \<Rightarrow> int \<Rightarrow> int \<Rightarrow> 'w \<Rightarrow> (error + int \<times> bool) \<times> 'w" where
  "UnrolledGan_minibatch env self opts epoch idx counter =
     then_do (np_random_choice env (data_num_points (self_data self)) (opts_batch_size opts)
                (Some (self_data_weights self)))
     (\<lambda>data_ids. then_do (pure (nd_take (data_data (self_data self)) data_ids))
     (\<lambda>batch_images. then_do (generate_noise env opts (opts_batch_size opts))
     (\<lambda>batch_noise. then_do
        (for_loop (xrange (opts_d_steps opts))
           (\<lambda>iter u. run_update env (self_d_optim self)
              (dict2 (self_real_points_ph self) (FeedArray batch_images)
                     (self_noise_ph self) (FeedArray batch_noise))) ())
     (\<lambda>_. then_do
        (for_loop (xrange (opts_g_steps opts))
           (\<lambda>iter u. run_update env (self_g_optim self)
              (dict2 (self_real_points_ph self) (FeedArray batch_images)
                     (self_noise_ph self) (FeedArray batch_noise))) ())
     (\<lambda>_. then_do
        (if opts_verbose opts
         then then_do (pure (py_mod (counter + 1) (opts_plot_every opts)))
              (\<lambda>r. if r = 0
                 then then_do (pure (nd_slice (self_noise_for_plots self) 0 16))
                      (\<lambda>noise. then_do (run_batch (env_evaluator env) opts (self_G self)
                                          (self_noise_ph self) noise PyNone None)
                      (\<lambda>points_to_plot. make_plots env opts (counter + 1) None points_to_plot
                                          (''sample_e%02d_mb%05d_'', epoch, idx)))
                 else pure (Inr ()))
         else pure (Inr ()))
     (\<lambda>_. pure (Inr (counter + 1,
                     opts_early_stop opts > 0 \<and> counter + 1 > opts_early_stop opts))))))))"

definition UnrolledGan_train_internal ::
  "('w, 'a) env \<Rightarrow> 'a gan \<Rightarrow> opts \<Rightarrow> 'w state \<Rightarrow> (error + unit) \<times> 'w state" where
  "UnrolledGan_train_internal env self opts =
     then_do (pure (py_div (data_num_points (self_data self)) (opts_batch_size opts)))
     (\<lambda>batches_num. then_do
        (for_loop (xrange (opts_gan_epoch_num opts))
           (\<lambda>epoch counter. then_do
              (on_session (for_loop_break (xrange batches_num)
                 (UnrolledGan_minibatch env self opts epoch) counter))
              (\<lambda>counter'. then_do bam (\<lambda>_. pure (Inr counter'))))
           0)
     (\<lambda>_. pure (Inr ())))"

definition UnrolledGan_sample_internal ::
  "('w, 'a) env \<Rightarrow> 'a gan \<Rightarrow> opts \<Rightarrow> int \<Rightarrow> 'w \<Rightarrow> (error + 'a ndarray) \<times> 'w" where
  "UnrolledGan_sample_internal env self opts num =
     then_do (generate_noise env opts num)
     (\<lambda>noise. run_batch (env_evaluator env) opts (self_G self) (self_noise_ph self) noise PyNone None)"

definition UnrolledGan_mixture_minibatch ::
  "('w, 'a) env \<Rightarrow> 'a gan \<Rightarrow> opts \<Rightarrow> 'a ndarray \<Rightarrow> int \<Rightarrow> unit \<Rightarrow> 'w \<Rightarrow> (error + unit) \<times> 'w" where
  "UnrolledGan_mixture_minibatch env self opts fake_images idx u =
     then_do (pure (nd_len fake_images))
     (\<lambda>n. then_do (np_random_choice env n (opts_batch_size opts) None)
     (\<lambda>ids. then_do (pure (nd_take fake_images ids))
     (\<lambda>batch_fake_images. then_do
        (np_random_choice env (data_num_points (self_data self)) (opts_batch_size opts) None)
     (\<lambda>ids. then_do (pure (nd_take (data_data (self_data self)) ids))
     (\<lambda>batch_real_images. run_update env (self_c_optim self)
        (dict2 (self_real_points_ph self) (FeedArray batch_real_images)
               (self_fake_points_ph self) (FeedArray batch_fake_images)))))))"

definition UnrolledGan_train_mixture_discriminator_internal ::
  "('w, 'a) env \<Rightarrow> 'a gan \<Rightarrow> opts \<Rightarrow> 'a ndarray \<Rightarrow> 'w state \<Rightarrow> (error + 'a ndarray) \<times> 'w state" where
  "UnrolledGan_train_mixture_discriminator_internal env self opts fake_images =
     then_do (pure (py_div (data_num_points (self_data self)) (opts_batch_size opts)))
     (\<lambda>batches_num. then_do
        (for_loop (xrange (opts_mixture_c_epoch_num opts))
           (\<lambda>epoch u. then_do
              (on_session (for_loop (xrange batches_num)
                 (UnrolledGan_mixture_minibatch env self opts fake_images) ()))
              (\<lambda>_. bam))
           ())
     (\<lambda>_. on_session (run_batch (env_evaluator env) opts (self_c_training self)
                        (self_real_points_ph self) (data_data (self_data self))
                        (self_is_training_ph self) (Some (FeedBool False)))))"

section \<open>Gan: the base class and the public methods\<close>

text \<open>The methods a subclass overrides; in the base class each is \<open>assert False\<close>.\<close>

definition train_internal ::
  "('w, 'a) env \<Rightarrow> 'a gan \<Rightarrow> opts \<Rightarrow> 'w state \<Rightarrow> (error + unit) \<times> 'w state" where
  "train_internal env self opts =
     (case self_class self of
        Gan \<Rightarrow> pure (Inl (AssertionError ''Gan base class has no train method defined.''))
      | ToyGan \<Rightarrow> ToyGan_train_internal env self opts
      | ImageGan \<Rightarrow> ImageGan_train_internal env self opts
      | UnrolledGan \<Rightarrow> UnrolledGan_train_internal env self opts)"

definition sample_internal ::
  "('w, 'a) env \<Rightarrow> 'a gan \<Rightarrow> opts \<Rightarrow> int \<Rightarrow> 'w state \<Rightarrow> (error + 'a ndarray) \<times> 'w state" where
  "sample_internal env self opts num =
     (case self_class self of
        Gan \<Rightarrow> pure (Inl (AssertionError ''Gan base class has no sample method defined.''))
      | ToyGan \<Rightarrow> on_session (ToyGan_sample_internal env self opts num)
      | ImageGan \<Rightarrow> on_session (ImageGan_sample_internal env self opts num)
      | UnrolledGan \<Rightarrow> on_session (UnrolledGan_sample_internal env self opts num))"

definition train_mixture_discriminator_internal ::
  "('w, 'a) env \<Rightarrow> 'a gan \<Rightarrow> opts \<Rightarrow> 'a ndarray \<Rightarrow> 'w state \<Rightarrow> (error + 'a ndarray) \<times> 'w state" where
  "train_mixture_discriminator_internal env self opts fake_images =
     (case self_class self of
        Gan \<Rightarrow> pure (Inl (AssertionError
                 ''Gan base class has no mixture discriminator method defined.''))
      | ToyGan \<Rightarrow> ToyGan_train_mixture_discriminator_internal env self opts fake_images
      | ImageGan \<Rightarrow> ImageGan_train_mixture_discriminator_internal env self opts fake_images
      | UnrolledGan \<Rightarrow> UnrolledGan_train_mixture_discriminator_internal env self opts fake_images)"

text \<open>
  The public methods return their value or exception, the model object (only \<open>train\<close>
  changes it, by setting \<open>_trained\<close>) and the state.
\<close>

definition train ::
  "('w, 'a) env \<Rightarrow> 'a gan \<Rightarrow> opts \<Rightarrow> 'w state \<Rightarrow> (error + unit) \<times> 'a gan \<times> 'w state" where
  "train env self opts s =
     (case train_internal env self opts s of
        (Inl e, s') \<Rightarrow> (Inl e, self, s')
      | (Inr u, s') \<Rightarrow> (Inr (), self\<lparr>self_trained := True\<rparr>, s'))"

definition sample ::
  "('w, 'a) env \<Rightarrow> 'a gan \<Rightarrow> opts \<Rightarrow> int \<Rightarrow> 'w state \<Rightarrow> (error + 'a ndarray) \<times> 'a gan \<times> 'w state" where
  "sample env self opts num s =
     (if \<not> self_trained self
      then (Inl (AssertionError ''Can not sample from the un-trained GAN''), self, s)
      else (case sample_internal env self opts num s of (r, s') \<Rightarrow> (r, self, s')))"

definition train_mixture_discriminator ::
  "('w, 'a) env \<Rightarrow> 'a gan \<Rightarrow> opts \<Rightarrow> 'a ndarray \<Rightarrow> 'w state \<Rightarrow>
   (error + 'a ndarray) \<times> 'a gan \<times> 'w state" where
  "train_mixture_discriminator env self opts fake_images s =
     (case train_mixture_discriminator_internal env self opts fake_images s of
        (r, s') \<Rightarrow> (r, self, s'))"

text \<open>A caller's use of a model: any sequence of calls of the public methods.\<close>

datatype 'a call = Train opts | Sample opts int | TrainMixture opts "'a ndarray"

datatype 'a outcome = Raised error | Returned_None | Returned "'a ndarray"

fun perform ::
  "('w, 'a) env \<Rightarrow> 'a call \<Rightarrow> 'a gan \<times> 'w state \<Rightarrow> 'a outcome \<times> 'a gan \<times> 'w state" where
  "perform env (Train opts) (self, s) =
     (case train env self opts s of
        (Inl e, self', s') \<Rightarrow> (Raised e, self', s')
      | (Inr u, self', s') \<Rightarrow> (Returned_None, self', s'))"
| "perform env (Sample opts num) (self, s) =
     (case sample env self opts num s of
        (Inl e, self', s') \<Rightarrow> (Raised e, self', s')
      | (Inr a, self', s') \<Rightarrow> (Returned a, self', s'))"
| "perform env (TrainMixture opts fake_images) (self, s) =
     (case train_mixture_discriminator env self opts fake_images s of
        (Inl e, self', s') \<Rightarrow> (Raised e, self', s')
      | (Inr a, self', s') \<Rightarrow> (Returned a, self', s'))"

fun perform_all ::
  "('w, 'a) env \<Rightarrow> 'a call list \<Rightarrow> 'a gan \<times> 'w state \<Rightarrow> 'a outcome list \<times> 'a gan \<times> 'w state" where
  "perform_all env [] ms = ([], ms)"
| "perform_all env (c # cs) ms =
     (case perform env c ms of
        (out, ms') \<Rightarrow> (case perform_all env cs ms' of (outs, ms'') \<Rightarrow> (out # outs, ms'')))"

text \<open>Whether some \<open>train\<close> call of a history returned normally.\<close>

fun train_completed :: "'a call list \<Rightarrow> 'a outcome list \<Rightarrow> bool" where
  "train_completed (Train opts # cs) (Returned_None # outs) = True"
| "train_completed (c # cs) (out # outs) = train_completed cs outs"
| "train_completed cs outs = False"

section \<open>UnrolledGan: the unrolled generator loss\<close>

text \<open>
  An update operation of the optimizer: \<open>update.op.type\<close> and \<open>update.op.inputs\<close>.
  The name of a tensor: that of the variable for a reference to it.
\<close>

record update_op =
  op_type :: string
  op_inputs :: "tensor list"

fun tensor_name :: "tensor \<Rightarrow> string" where
  "tensor_name (Ref n) = n"
| "tensor_name (Read n) = n @ ''/read''"
| "tensor_name (Leaf n) = n"
| "tensor_name (Apply f ts) = f"

type_synonym update_dict = "(tensor \<times> tensor) list"

text \<open>
  The loop of \<open>extract_update_dict\<close> over \<open>update_ops\<close>, with the \<open>OrderedDict\<close> built so
  far. \<open>var.value()\<close> is the read of the variable, \<open>var + value\<close> an addition node. The
  last branch formats its message from \<open>update_op\<close>, a name that is bound nowhere (the
  loop variable is \<open>update\<close>, the argument \<open>update_ops\<close>): evaluating it raises
  \<open>NameError\<close> before the \<open>ValueError\<close> is built.
\<close>

fun extract_update_loop :: "string list \<Rightarrow> update_op list \<Rightarrow> update_dict \<Rightarrow> error + update_dict" where
  "extract_update_loop global_variables [] updates = Inr updates"
| "extract_update_loop global_variables (update # update_ops) updates =
     (case op_inputs update of
        [] \<Rightarrow> Inl (IndexError ''list index out of range'')
      | ref # inputs \<Rightarrow>
          (let var_name = tensor_name ref
           in if var_name \<notin> set global_variables then Inl (KeyError var_name)
              else (case inputs of
                      [] \<Rightarrow> Inl (IndexError ''list index out of range'')
                    | val # _ \<Rightarrow>
                        if op_type update = ''Assign''
                        then extract_update_loop global_variables update_ops
                               (AList.update (Read var_name) val updates)
                        else if op_type update = ''AssignAdd''
                        then extract_update_loop global_variables update_ops
                               (AList.update (Read var_name)
                                  (Apply ''add'' [Read var_name, val]) updates)
                        else Inl (NameError ''update_op''))))"

definition extract_update_dict :: "string list \<Rightarrow> update_op list \<Rightarrow> error + update_dict" where
  "extract_update_dict global_variables update_ops =
     extract_update_loop global_variables update_ops []"

text \<open>
  What the network and optimizer code hands to the unrolling: the discriminator loss,
  the generator loss of the plain variants, the optimizer's update operations, the names
  of the global variables, and the engine's \<open>graph_replace\<close> on a tensor and on a dict
  of tensors.
\<close>

record graph =
  graph_d_loss :: tensor
  graph_g_loss :: tensor
  graph_updates :: "update_op list"
  graph_global_variables :: "string list"
  graph_replace :: "tensor \<Rightarrow> update_dict \<Rightarrow> error + tensor"
  graph_replace_dict :: "update_dict \<Rightarrow> update_dict \<Rightarrow> error + update_dict"

definition and_then :: "error + 'x \<Rightarrow> ('x \<Rightarrow> error + 'y) \<Rightarrow> error + 'y" where
  "and_then r f = (case r of Inl e \<Rightarrow> Inl e | Inr x \<Rightarrow> f x)"

text \<open>\<open>for i in xrange(opts['unrolling_steps'] - 1): cur_update_dict = graph_replace(...)\<close>\<close>

fun unroll_loop :: "graph \<Rightarrow> update_dict \<Rightarrow> int list \<Rightarrow> update_dict \<Rightarrow> error + update_dict" where
  "unroll_loop gr update_dict [] cur_update_dict = Inr cur_update_dict"
| "unroll_loop gr update_dict (i # is) cur_update_dict =
     and_then (graph_replace_dict gr update_dict cur_update_dict)
       (unroll_loop gr update_dict is)"

definition negative :: "tensor \<Rightarrow> tensor" where
  "negative t = Apply ''neg'' [t]"

definition UnrolledGan_g_loss :: "graph \<Rightarrow> opts \<Rightarrow> error + tensor" where
  "UnrolledGan_g_loss gr opts =
     (if opts_unrolling_steps opts > 0
      then and_then (extract_update_dict (graph_global_variables gr) (graph_updates gr))
           (\<lambda>update_dict. and_then
              (unroll_loop gr update_dict (xrange (opts_unrolling_steps opts - 1)) update_dict)
           (\<lambda>cur_update_dict. and_then (graph_replace gr (graph_d_loss gr) cur_update_dict)
           (\<lambda>unrolled_loss. Inr (negative unrolled_loss))))
      else Inr (negative (graph_d_loss gr)))"

text \<open>
  The claim's words for the unrolling: the single-step mapping composed with itself
  \<open>n\<close> more times.
\<close>

primrec composed_updates :: "graph \<Rightarrow> update_dict \<Rightarrow> nat \<Rightarrow> error + update_dict" where
  "composed_updates gr update_dict 0 = Inr update_dict"
| "composed_updates gr update_dict (Suc n) =
     and_then (composed_updates gr update_dict n) (graph_replace_dict gr update_dict)"

section \<open>Construction\<close>

text \<open>
  \<open>_build_model_internal\<close> of each class, given what \<open>__init__\<close> has set before it. The
  networks and losses are the graph's; what the methods above use are the placeholders
  and the nodes stored in the object. ToyGan has no mode flag, ImageGan a placeholder,
  UnrolledGan the constant \<open>True\<close>.
\<close>

definition build_model_internal ::
  "gan_class \<Rightarrow> graph \<Rightarrow> opts \<Rightarrow> 'a dataset \<Rightarrow> real list \<Rightarrow> 'a ndarray \<Rightarrow> error + 'a gan" where
  "build_model_internal cls gr opts data weights noise_for_plots =
     (case cls of
        Gan \<Rightarrow> Inl (AssertionError ''Gan base class has no build_model method defined.'')
      | ToyGan \<Rightarrow> Inr
          \<lparr>self_class = ToyGan, self_trained = False, self_data = data,
           self_data_weights = weights, self_noise_for_plots = noise_for_plots,
           self_real_points_ph = Placeholder ''real_points'',
           self_fake_points_ph = Placeholder ''fake_points'',
           self_noise_ph = Placeholder ''noise'',
           self_is_training_ph = PyNone,
           self_G = G_node, self_d_loss = graph_d_loss gr, self_g_loss = graph_g_loss gr,
           self_c_training = C_training_node, self_g_optim = G_optim_node,
           self_d_optim = D_optim_node, self_c_optim = C_optim_node\<rparr>
      | ImageGan \<Rightarrow> Inr
          \<lparr>self_class = ImageGan, self_trained = False, self_data = data,
           self_data_weights = weights, self_noise_for_plots = noise_for_plots,
           self_real_points_ph = Placeholder ''real_points'',
           self_fake_points_ph = Placeholder ''fake_points'',
           self_noise_ph = Placeholder ''noise'',
           self_is_training_ph = Placeholder ''is_train'',
           self_G = G_node, self_d_loss = graph_d_loss gr, self_g_loss = graph_g_loss gr,
           self_c_training = C_training_node, self_g_optim = G_optim_node,
           self_d_optim = D_optim_node, self_c_optim = C_optim_node\<rparr>
      | UnrolledGan \<Rightarrow>
          and_then (UnrolledGan_g_loss gr opts)
          (\<lambda>g_loss. Inr
          \<lparr>self_class = UnrolledGan, self_trained = False, self_data = data,
           self_data_weights = weights, self_noise_for_plots = noise_for_plots,
           self_real_points_ph = Placeholder ''real_points'',
           self_fake_points_ph = Placeholder ''fake_points'',
           self_noise_ph = Placeholder ''noise'',
           self_is_training_ph = PyBool True,
           self_G = G_node, self_d_loss = graph_d_loss gr, self_g_loss = g_loss,
           self_c_training = C_training_node, self_g_optim = G_optim_node,
           self_d_optim = D_optim_node, self_c_optim = C_optim_node\<rparr>))"

text \<open>\<open>Gan.__init__\<close>: the noise for plots, the graph, the initialisation of the variables.\<close>

definition init ::
  "('w, 'a) env \<Rightarrow> gan_class \<Rightarrow> graph \<Rightarrow> opts \<Rightarrow> 'a dataset \<Rightarrow> real list \<Rightarrow> 'w state \<Rightarrow>
   (error + 'a gan) \<times> 'w state" where
  "init env cls gr opts data weights =
     then_do (on_session (generate_noise env opts 500))
     (\<lambda>noise_for_plots. then_do (pure (build_model_internal cls gr opts data weights noise_for_plots))
     (\<lambda>self. then_do (on_session (session_run (env_evaluator env) Init_node []))
     (\<lambda>_. pure (Inr self))))"

section \<open>Examples to run\<close>

text \<open>An engine that returns what is fed for its first key (an empty vector without one).\<close>

definition echo_evaluator :: "(unit, 'a) evaluator" where
  "echo_evaluator w fetch fd =
     (case fd of
        (k, FeedArray a) # rest \<Rightarrow> (Inr a, w)
      | _ \<Rightarrow> (Inr (Array [] []), w))"

text \<open>An engine that returns the first coordinate of every fed point, as a vector.\<close>

definition first_coordinate_evaluator :: "(unit, 'a) evaluator" where
  "first_coordinate_evaluator w fetch fd =
     (case fd of
        (k, FeedArray (Array ts rs)) # rest \<Rightarrow> (Inr (Array [] (map (take 1) rs)), w)
      | _ \<Rightarrow> (Inl ''nothing to return'', w))"

definition example_opts :: opts where
  "example_opts =
     \<lparr>opts_tf_run_batch_size = 2, opts_batch_size = 2, opts_gan_epoch_num = 3,
      opts_mixture_c_epoch_num = 1, opts_d_steps = 1, opts_g_steps = 1,
      opts_unrolling_steps = 3, opts_early_stop = 1, opts_plot_every = 1,
      opts_verbose = False\<rparr>"

text \<open>
  A \<open>graph_replace\<close> that substitutes in the tree of a tensor: an input that is a key of
  the dict is replaced by its value, any other input is copied with its own inputs
  treated alike. On a dict the keys stay and the values are rewritten.
\<close>

fun substitute :: "update_dict \<Rightarrow> tensor \<Rightarrow> tensor" where
  "substitute d (Apply f args) =
     Apply f (map (\<lambda>a. case map_of d a of Some v \<Rightarrow> v | None \<Rightarrow> substitute d a) args)"
| "substitute d t = t"

definition example_graph :: graph where
  "example_graph =
     \<lparr>graph_d_loss = Apply ''loss'' [Read ''w''],
      graph_g_loss = Leaf ''g_loss'',
      graph_updates = [\<lparr>op_type = ''AssignAdd'',
                         op_inputs = [Ref ''w'', Apply ''step'' [Read ''w'']]\<rparr>],
      graph_global_variables = [''w''],
      graph_replace = (\<lambda>target d. Inr (substitute d target)),
      graph_replace_dict = (\<lambda>target d. Inr (map (\<lambda>kv. (fst kv, substitute d (snd kv))) target))\<rparr>"

definition example_env :: "(unit, real) env" where
  "example_env =
     \<lparr>env_evaluator = echo_evaluator,
      env_sampler = (\<lambda>w a sz p. (Inr [0..<nat sz], w)),
      env_generate_noise = (\<lambda>w opts num. (Inr (Array [1] (replicate (nat num) [0])), w)),
      env_make_plots = (\<lambda>w opts counter real_points fake_points prefix. (Inr (), w))\<rparr>"

definition example_data :: "real dataset" where
  "example_data =
     \<lparr>data_num_points = 4, data_data_shape = [2],
      data_data = Array [2] [[0, 1], [1, 0], [1, 1], [0, 0]]\<rparr>"

definition example_state :: "unit state" where
  "example_state = \<lparr>session = (), signals = 0\<rparr>"

text \<open>The object that \<open>__init__\<close> gives for a class, the example data and uniform weights.\<close>

definition example_gan :: "gan_class \<Rightarrow> handle \<Rightarrow> tensor \<Rightarrow> real gan" where
  "example_gan cls is_training_ph g_loss =
     \<lparr>self_class = cls, self_trained = False, self_data = example_data,
      self_data_weights = [1 / 4, 1 / 4, 1 / 4, 1 / 4],
      self_noise_for_plots = Array [1] (replicate 500 [0]),
      self_real_points_ph = Placeholder ''real_points'',
      self_fake_points_ph = Placeholder ''fake_points'',
      self_noise_ph = Placeholder ''noise'',
      self_is_training_ph = is_training_ph,
      self_G = G_node, self_d_loss = Apply ''loss'' [Read ''w''], self_g_loss = g_loss,
      self_c_training = C_training_node, self_g_optim = G_optim_node,
      self_d_optim = D_optim_node, self_c_optim = C_optim_node\<rparr>"

text \<open>The generator loss that three unrolling steps give on the example graph.\<close>

definition example_unrolled_g_loss :: tensor where
  "example_unrolled_g_loss =
     Apply ''neg'' [Apply ''loss''
       [Apply ''add''
         [Apply ''add'' [Apply ''add'' [Read ''w'', Apply ''step'' [Read ''w'']],
                         Apply ''step'' [Apply ''add'' [Read ''w'', Apply ''step'' [Read ''w'']]]],
          Apply ''step''
           [Apply ''add'' [Apply ''add'' [Read ''w'', Apply ''step'' [Read ''w'']],
                           Apply ''step'' [Apply ''add'' [Read ''w'', Apply ''step'' [Read ''w'']]]]]]]]"


text \<open>An engine that returns a 1 x 1 image for every fed point: its first coordinate.\<close>

definition pixel_evaluator :: "(unit, 'a) evaluator" where
  "pixel_evaluator w fetch fd =
     (case fd of
        (k, FeedArray (Array ts rs)) # rest \<Rightarrow> (Inr (Array [1, 1] (map (take 1) rs)), w)
      | _ \<Rightarrow> (Inl ''no points fed'', w))"

text \<open>
  An engine with training: its world is the number of optimizer updates run so far.
  The classifier output for a point is 0 before any update and 1 after; the generator
  output is the fed noise.
\<close>

definition trainable_evaluator :: "(nat, real) evaluator" where
  "trainable_evaluator w fetch fd =
     (case fetch of
        C_training_node \<Rightarrow>
          (case fd of
             (k, FeedArray (Array ts rs)) # rest \<Rightarrow>
               (Inr (Array [1] (map (\<lambda>r. [if w = 0 then 0 else 1]) rs)), w)
           | _ \<Rightarrow> (Inl ''no points fed'', w))
      | G_node \<Rightarrow>
          (case fd of
             (k, FeedArray a) # rest \<Rightarrow> (Inr a, w)
           | _ \<Rightarrow> (Inl ''no points fed'', w))
      | Init_node \<Rightarrow> (Inr (Array [] []), w)
      | D_optim_node \<Rightarrow> (Inr (Array [] []), Suc w)
      | G_optim_node \<Rightarrow> (Inr (Array [] []), Suc w)
      | C_optim_node \<Rightarrow> (Inr (Array [] []), Suc w))"

definition trainable_env :: "(nat, real) env" where
  "trainable_env =
     \<lparr>env_evaluator = trainable_evaluator,
      env_sampler = (\<lambda>w a sz p. (Inr [0..<nat sz], w)),
      env_generate_noise = (\<lambda>w opts num. (Inr (Array [1] (replicate (nat num) [0])), w)),
      env_make_plots = (\<lambda>w opts counter real_points fake_points prefix. (Inr (), w))\<rparr>"

section \<open>Words of the claims\<close>


text \<open>
  The number of minibatches that an epoch of \<open>n\<close> minibatches runs when it starts with
  the update counter at \<open>counter\<close>: all of them without an early-stop count, and with a
  positive one those up to and including the first after which the counter exceeds it.
\<close>

definition minibatches_run :: "int \<Rightarrow> int \<Rightarrow> nat \<Rightarrow> nat" where
  "minibatches_run early_stop counter n =
     (if 0 < early_stop then min n (max 1 (nat (early_stop + 1 - counter))) else n)"

section \<open>Properties of \<open>_run_batch\<close>\<close>

lemma then_do_Inl: "m s = (Inl e, s') \<Longrightarrow> then_do m f s = (Inl e, s')"
  by (simp add: then_do_def)

lemma then_do_Inr: "m s = (Inr x, s') \<Longrightarrow> then_do m f s = f x s'"
  by (simp add: then_do_def)

lemma atleast_2d_nonempty: "fst (atleast_2d a) \<noteq> []"
  by (cases a rule: atleast_2d.cases) simp_all

lemma np_vstack_rank: "np_vstack xs = Inr r \<Longrightarrow> 2 \<le> length (shape r)"
proof (cases xs)
  case Nil
  assume "np_vstack xs = Inr r"
  with Nil show ?thesis by simp
next
  case (Cons a as)
  assume "np_vstack xs = Inr r"
  with Cons have "r = Array (fst (atleast_2d a)) (concat (map snd (map atleast_2d (a # as))))"
    by (simp add: Let_def split: if_splits)
  moreover have "fst (atleast_2d a) \<noteq> []" by (rule atleast_2d_nonempty)
  ultimately show ?thesis by (cases "fst (atleast_2d a)") simp_all
qed

lemma run_batch_Inr:
  assumes "run_batch ev opts operation placeholder feed placeholder2 feed2 w = (Inr res, w')"
  obtains ts rs result where "feed = Array ts rs" "opts_tf_run_batch_size opts \<noteq> 0"
    "run_batch_loop ev operation placeholder ts rs placeholder2 feed2 (opts_tf_run_batch_size opts)
       \<lceil>real_of_int (int (length rs)) / real_of_int (opts_tf_run_batch_size opts)\<rceil>
       (xrange \<lceil>real_of_int (int (length rs)) / real_of_int (opts_tf_run_batch_size opts)\<rceil>) w
     = (Inr result, w')"
    "np_vstack result = Inr res" "hd (shape res) = length rs"
  using assms
  by (auto simp: run_batch_def Let_def split: ndarray.splits if_splits prod.splits sum.splits)

lemma session_run_rank1:
  assumes "\<And>w fd r w'. ev w operation fd = (Inr r, w') \<Longrightarrow> length (shape r) = 1"
    and "session_run ev operation fd w = (Inr res, w')"
  shows "length (shape res) = 1"
  using assms
  by (auto simp: session_run_def split: if_splits prod.splits sum.splits)

lemma run_chunk_rank1:
  assumes "\<And>w fd r w'. ev w operation fd = (Inr r, w') \<Longrightarrow> length (shape r) = 1"
    and "run_chunk ev operation placeholder ts rs placeholder2 feed2 b bn idx w = (Inr res, w')"
  shows "length (shape res) = 1"
  using assms(2) session_run_rank1[OF assms(1)]
  by (auto simp: run_chunk_def split: if_splits option.splits)

lemma rank1_column: "length (shape a) = 1 \<Longrightarrow> atleast_2d (reshape_column a) = ([1], snd (atleast_2d (reshape_column a)))"
  by (cases a rule: reshape_column.cases) simp_all

lemma loop_rank1:
  assumes "\<And>w fd r w'. ev w operation fd = (Inr r, w') \<Longrightarrow> length (shape r) = 1"
  shows "run_batch_loop ev operation placeholder ts rs placeholder2 feed2 b bn idxs w = (Inr result, w')
    \<Longrightarrow> list_all (\<lambda>a. fst (atleast_2d a) = [1]) result"
proof (induction idxs arbitrary: w result)
  case Nil
  then show ?case by simp
next
  case (Cons idx idxs)
  from Cons.prems obtain res w1 result1 where
    c: "run_chunk ev operation placeholder ts rs placeholder2 feed2 b bn idx w = (Inr res, w1)"
    and l: "run_batch_loop ev operation placeholder ts rs placeholder2 feed2 b bn idxs w1 = (Inr result1, w')"
    and r: "result = (if length (shape res) = 1 then reshape_column res else res) # result1"
    by (auto split: prod.splits sum.splits)
  have "length (shape res) = 1" using run_chunk_rank1[OF assms c] .
  then have "fst (atleast_2d (reshape_column res)) = [1]"
    using rank1_column[of res] by (metis fst_conv)
  with Cons.IH[OF l] r \<open>length (shape res) = 1\<close> show ?case by simp
qed

lemma np_vstack_columns:
  assumes "np_vstack result = Inr res" "list_all (\<lambda>a. fst (atleast_2d a) = [1]) result"
  shows "\<exists>rows. res = Array [1] rows"
  using assms by (cases result) (auto simp: Let_def split: if_splits)

text \<open>
  C7 as stated fails: a chunk result of rank 3 is stacked as it is, and the returned
  array has rank 3.
\<close>

theorem run_batch_rank_counterexample:
  "run_batch echo_evaluator example_opts G_node (Placeholder ''noise'')
     (Array [2, 2] [[1, 2, 3, 4 :: int]]) PyNone None ()
     = (Inr (Array [2, 2] [[1, 2, 3, 4]]), ())
   \<and> length (shape (Array [2, 2] [[1, 2, 3, 4 :: int]])) = 3"
  by code_simp

text \<open>
  C8. An input whose first dimension has length zero makes \<open>_run_batch\<close> raise, for every
  chunk size, before the engine is asked anything (the world is unchanged): no chunk is
  run and \<open>np.vstack\<close> of the empty list raises \<open>ValueError\<close>; with a chunk size of
  zero the division raises before that.
\<close>

theorem run_batch_empty_raises:
  "run_batch ev opts operation placeholder (Array ts []) placeholder2 feed2 w
     = (Inl (if opts_tf_run_batch_size opts = 0
             then ZeroDivisionError ''float division by zero''
             else ValueError ''need at least one array to concatenate''), w)"
  by (simp add: run_batch_def xrange_def Let_def)








lemma batches_num_bounds:
  assumes "0 < B"
  shows "B * (\<lceil>real_of_int N / real_of_int B\<rceil> - 1) < N \<and> N \<le> B * \<lceil>real_of_int N / real_of_int B\<rceil>"
proof -
  define q where "q = (- N) div B"
  define r where "r = (- N) mod B"
  have c: "\<lceil>real_of_int N / real_of_int B\<rceil> = - q" unfolding q_def by (rule ceiling_divide_eq_div)
  have e: "- N = B * q + r" unfolding q_def r_def by simp
  have r: "0 \<le> r" "r < B" unfolding r_def using assms by simp_all
  have "B * (- q - 1) = - (B * q) - B" by (simp add: algebra_simps)
  moreover have "B * (- q) = - (B * q)" by simp
  ultimately show ?thesis unfolding c using e r by linarith
qed


lemma batches_num_pos:
  assumes "0 < B" "0 < N"
  shows "0 < \<lceil>real_of_int N / real_of_int B\<rceil>"
proof (rule ccontr)
  assume "\<not> 0 < \<lceil>real_of_int N / real_of_int B\<rceil>"
  then have "B * \<lceil>real_of_int N / real_of_int B\<rceil> \<le> 0"
    using assms(1) by (simp add: mult_nonneg_nonpos)
  moreover have "N \<le> B * \<lceil>real_of_int N / real_of_int B\<rceil>"
    using batches_num_bounds[OF assms(1), of N] by blast
  ultimately show False using assms(2) by linarith
qed

lemma run_chunk_unchunked:
  "run_chunk ev operation placeholder ts rs placeholder2 feed2 B bn idx w
   = unchunked ev operation placeholder (Array ts (chunk_rows rs B bn idx)) placeholder2 feed2 w"
  by (simp add: run_chunk_def unchunked_def chunk_rows_def split: option.splits)

lemma loop_pointwise:
  assumes "\<And>w c. unchunked ev operation placeholder (Array ts c) placeholder2 feed2 w
             = (Inr (Array os (map g c)), w)"
  shows "run_batch_loop ev operation placeholder ts rs placeholder2 feed2 B bn idxs w
    = (Inr (map (\<lambda>idx. Array (if os = [] then [1] else os) (map g (chunk_rows rs B bn idx))) idxs), w)"
  by (induction idxs) (simp_all add: run_chunk_unchunked assms)




section \<open>Properties of the unrolling\<close>

text \<open>
  C3. An update operation that is neither \<open>Assign\<close> nor \<open>AssignAdd\<close> should make the
  extraction raise the unsupported-update error that names the type of the operation.
  The code at such an operation (an \<open>AssignSub\<close> on the known variable \<open>w\<close>): the
  message refers to the unbound name \<open>update_op\<close>, and what is raised is \<open>NameError\<close>.
\<close>

theorem extract_update_dict_unsupported:
  "extract_update_dict [''w'']
     [\<lparr>op_type = ''AssignSub'', op_inputs = [Ref ''w'', Leaf ''delta'']\<rparr>]
   = Inl (NameError ''update_op'')"
  by (simp add: extract_update_dict_def)

lemma and_then_Inl: "and_then (Inl e) f = Inl e"
  by (simp add: and_then_def)

lemma and_then_Inr: "and_then (Inr x) f = f x"
  by (simp add: and_then_def)

lemma composed_updates_Inl:
  "((\<lambda>r. and_then r (graph_replace_dict gr u)) ^^ n) (Inl e) = Inl e"
  by (induction n) (simp_all add: and_then_Inl)

lemma composed_updates_funpow:
  "composed_updates gr u n = ((\<lambda>r. and_then r (graph_replace_dict gr u)) ^^ n) (Inr u)"
  by (induction n) simp_all

lemma unroll_loop_funpow:
  "unroll_loop gr u idxs cur = ((\<lambda>r. and_then r (graph_replace_dict gr u)) ^^ length idxs) (Inr cur)"
proof (induction idxs arbitrary: cur)
  case Nil
  then show ?case by simp
next
  case (Cons i idxs)
  let ?step = "\<lambda>r. and_then r (graph_replace_dict gr u)"
  have s: "(?step ^^ length (i # idxs)) (Inr cur) = (?step ^^ length idxs) (graph_replace_dict gr u cur)"
    by (simp only: length_Cons funpow_Suc_right o_apply and_then_Inr)
  show ?case
  proof (cases "graph_replace_dict gr u cur")
    case (Inl e)
    then show ?thesis unfolding s by (simp add: and_then_Inl composed_updates_Inl)
  next
    case (Inr c)
    then show ?thesis unfolding s using Cons.IH[of c] by (simp add: and_then_Inr)
  qed
qed

lemma unroll_loop_composed:
  "unroll_loop gr u (xrange n) u = composed_updates gr u (nat n)"
  by (simp add: unroll_loop_funpow composed_updates_funpow xrange_def)

text \<open>
  C2. With \<open>unrolling_steps \<le> 0\<close> the generator loss is the negation of the discriminator
  loss, and nothing is substituted. With \<open>unrolling_steps = K > 0\<close> the loop composes the
  single-step update mapping with itself \<open>K - 1\<close> more times (each time \<open>graph_replace\<close>
  of the mapping under the mapping unrolled so far), and the generator loss is the
  negation of the discriminator loss under \<open>graph_replace\<close> with that composed mapping;
  a failure of the extraction or of \<open>graph_replace\<close> is the failure of the build.
\<close>

theorem UnrolledGan_g_loss_unrolled:
  "(opts_unrolling_steps opts \<le> 0 \<longrightarrow>
      UnrolledGan_g_loss gr opts = Inr (negative (graph_d_loss gr)))
   \<and> (0 < opts_unrolling_steps opts \<longrightarrow>
      UnrolledGan_g_loss gr opts =
        and_then (extract_update_dict (graph_global_variables gr) (graph_updates gr))
          (\<lambda>update_dict. and_then
             (composed_updates gr update_dict (nat (opts_unrolling_steps opts - 1)))
          (\<lambda>unrolled. and_then (graph_replace gr (graph_d_loss gr) unrolled)
          (\<lambda>loss. Inr (negative loss)))))"
  by (simp add: UnrolledGan_g_loss_def unroll_loop_composed)

theorem UnrolledGan_g_loss_unrolled_witness:
  "opts_unrolling_steps (example_opts\<lparr>opts_unrolling_steps := 0\<rparr>) \<le> 0
   \<and> UnrolledGan_g_loss example_graph (example_opts\<lparr>opts_unrolling_steps := 0\<rparr>)
       = Inr (Apply ''neg'' [Apply ''loss'' [Read ''w'']])
   \<and> 0 < opts_unrolling_steps example_opts
   \<and> composed_updates example_graph
        [(Read ''w'', Apply ''add'' [Read ''w'', Apply ''step'' [Read ''w'']])] 2
       = Inr [(Read ''w'',
           Apply ''add''
            [Apply ''add'' [Apply ''add'' [Read ''w'', Apply ''step'' [Read ''w'']],
                            Apply ''step'' [Apply ''add'' [Read ''w'', Apply ''step'' [Read ''w'']]]],
             Apply ''step''
              [Apply ''add'' [Apply ''add'' [Read ''w'', Apply ''step'' [Read ''w'']],
                            Apply ''step'' [Apply ''add'' [Read ''w'', Apply ''step'' [Read ''w'']]]]]])]
   \<and> UnrolledGan_g_loss example_graph example_opts
       = Inr (Apply ''neg'' [Apply ''loss''
          [Apply ''add''
            [Apply ''add'' [Apply ''add'' [Read ''w'', Apply ''step'' [Read ''w'']],
                            Apply ''step'' [Apply ''add'' [Read ''w'', Apply ''step'' [Read ''w'']]]],
             Apply ''step''
              [Apply ''add'' [Apply ''add'' [Read ''w'', Apply ''step'' [Read ''w'']],
                            Apply ''step'' [Apply ''add'' [Read ''w'', Apply ''step'' [Read ''w'']]]]]]]])"
proof -
  have e: "extract_update_dict (graph_global_variables example_graph) (graph_updates example_graph)
      = Inr [(Read ''w'', Apply ''add'' [Read ''w'', Apply ''step'' [Read ''w'']])]"
    by (simp add: example_graph_def extract_update_dict_def Let_def)
  have c: "composed_updates example_graph
        [(Read ''w'', Apply ''add'' [Read ''w'', Apply ''step'' [Read ''w'']])] 2
       = Inr [(Read ''w'',
           Apply ''add''
            [Apply ''add'' [Apply ''add'' [Read ''w'', Apply ''step'' [Read ''w'']],
                            Apply ''step'' [Apply ''add'' [Read ''w'', Apply ''step'' [Read ''w'']]]],
             Apply ''step''
              [Apply ''add'' [Apply ''add'' [Read ''w'', Apply ''step'' [Read ''w'']],
                            Apply ''step'' [Apply ''add'' [Read ''w'', Apply ''step'' [Read ''w'']]]]]])]"
    by (simp add: numeral_2_eq_2 example_graph_def and_then_def)
  have k: "nat (opts_unrolling_steps example_opts - 1) = 2" "0 < opts_unrolling_steps example_opts"
    by (simp_all add: example_opts_def)
  have d: "graph_d_loss example_graph = Apply ''loss'' [Read ''w'']"
    "\<And>t u. graph_replace example_graph t u = Inr (substitute u t)"
    by (simp_all add: example_graph_def)
  from UnrolledGan_g_loss_unrolled[of "example_opts\<lparr>opts_unrolling_steps := 0\<rparr>" example_graph]
       UnrolledGan_g_loss_unrolled[of example_opts example_graph]
  show ?thesis
    by (simp add: e k c d and_then_def negative_def)
qed

section \<open>Properties of the public methods\<close>

lemma perform_object:
  assumes "perform env c (self, s) = (out, self', s')"
  shows "self' = self\<lparr>self_trained := self_trained self \<or> train_completed [c] [out]\<rparr>"
proof (cases c)
  case (Train opts)
  obtain r s1 where ti: "train_internal env self opts s = (r, s1)"
    by (cases "train_internal env self opts s")
  show ?thesis
  proof (cases r)
    case (Inl e)
    with assms Train ti have "out = Raised e" "self' = self" by (simp_all add: train_def)
    with Train show ?thesis by simp
  next
    case (Inr u)
    with assms Train ti have "out = Returned_None" "self' = self\<lparr>self_trained := True\<rparr>"
      by (simp_all add: train_def)
    with Train show ?thesis by simp
  qed
next
  case (Sample opts num)
  obtain r selfx s1 where sa: "sample env self opts num s = (r, selfx, s1)"
    by (cases "sample env self opts num s")
  have sx: "selfx = self"
  proof (cases "self_trained self")
    case True
    obtain r2 s2 where "sample_internal env self opts num s = (r2, s2)"
      by (cases "sample_internal env self opts num s")
    with sa True show ?thesis by (simp add: sample_def)
  next
    case False
    with sa show ?thesis by (simp add: sample_def)
  qed
  show ?thesis
  proof (cases r)
    case (Inl e)
    with assms Sample sa sx have "out = Raised e" "self' = self" by simp_all
    with Sample show ?thesis by simp
  next
    case (Inr a)
    with assms Sample sa sx have "out = Returned a" "self' = self" by simp_all
    with Sample show ?thesis by simp
  qed
next
  case (TrainMixture opts fake_images)
  obtain r s1 where ti: "train_mixture_discriminator_internal env self opts fake_images s = (r, s1)"
    by (cases "train_mixture_discriminator_internal env self opts fake_images s")
  have "self' = self"
  proof (cases r)
    case (Inl e)
    with assms TrainMixture ti show ?thesis by (simp add: train_mixture_discriminator_def)
  next
    case (Inr a)
    with assms TrainMixture ti show ?thesis by (simp add: train_mixture_discriminator_def)
  qed
  with TrainMixture show ?thesis by simp
qed

lemma train_completed_Cons:
  "train_completed (c # cs) (out # outs) = (train_completed [c] [out] \<or> train_completed cs outs)"
  by (cases c; cases out) simp_all

lemma perform_all_object:
  "perform_all env calls (self, s) = (outs, self', s') \<Longrightarrow>
   self' = self\<lparr>self_trained := self_trained self \<or> train_completed calls outs\<rparr>"
proof (induction calls arbitrary: self s outs)
  case Nil
  then show ?case by simp
next
  case (Cons c calls)
  obtain out self1 s1 where p: "perform env c (self, s) = (out, self1, s1)"
    by (cases "perform env c (self, s)")
  obtain outs1 self2 s2 where r: "perform_all env calls (self1, s1) = (outs1, self2, s2)"
    by (cases "perform_all env calls (self1, s1)")
  from Cons.prems p r have o: "outs = out # outs1" and e: "self2 = self'" "s2 = s'" by simp_all
  have 1: "self1 = self\<lparr>self_trained := self_trained self \<or> train_completed [c] [out]\<rparr>"
    using p by (rule perform_object)
  have 2: "self' = self1\<lparr>self_trained := self_trained self1 \<or> train_completed calls outs1\<rparr>"
    using r[unfolded e] by (rule Cons.IH)
  have 3: "self_trained self1 = (self_trained self \<or> train_completed [c] [out])"
    by (subst 1) simp
  have "self' = self\<lparr>self_trained := self_trained self1 \<or> train_completed calls outs1\<rparr>"
    by (subst 2, subst 1) simp
  then show ?case unfolding o train_completed_Cons[of c calls out outs1] 3 by simp
qed

lemma build_model_internal_fresh:
  assumes "build_model_internal cls gr opts data weights noise = Inr self"
  shows "\<not> self_trained self \<and> self_class self = cls \<and> cls \<noteq> Gan"
proof (cases cls)
  case Gan
  with assms show ?thesis by (simp add: build_model_internal_def)
next
  case ToyGan
  with assms have "self_trained self = False \<and> self_class self = ToyGan"
    by (simp add: build_model_internal_def) (metis gan.select_convs(1,2))
  with ToyGan show ?thesis by simp
next
  case ImageGan
  with assms have "self_trained self = False \<and> self_class self = ImageGan"
    by (simp add: build_model_internal_def) (metis gan.select_convs(1,2))
  with ImageGan show ?thesis by simp
next
  case UnrolledGan
  with assms have "self_trained self = False \<and> self_class self = UnrolledGan"
    by (cases "UnrolledGan_g_loss gr opts")
       (simp_all add: build_model_internal_def and_then_def, metis gan.select_convs(1,2))
  with UnrolledGan show ?thesis by simp
qed

lemma then_do_Inr_result:
  assumes "then_do m f s = (Inr y, s')"
  obtains x s1 where "m s = (Inr x, s1)" "f x s1 = (Inr y, s')"
proof -
  obtain r s1 where m: "m s = (r, s1)" by (cases "m s")
  show ?thesis
  proof (cases r)
    case (Inl e)
    with assms m show ?thesis by (simp add: then_do_def)
  next
    case (Inr x)
    with assms m have "f x s1 = (Inr y, s')" by (simp add: then_do_def)
    with m Inr that show ?thesis by blast
  qed
qed

lemma init_fresh:
  assumes "init env cls gr opts data weights s0 = (Inr self, s)"
  shows "\<not> self_trained self \<and> self_class self = cls \<and> cls \<noteq> Gan"
proof -
  from assms obtain noise s1 where
    "then_do (pure (build_model_internal cls gr opts data weights noise))
       (\<lambda>self. then_do (on_session (session_run (env_evaluator env) Init_node []))
          (\<lambda>_. pure (Inr self))) s1 = (Inr self, s)"
    unfolding init_def by (rule then_do_Inr_result)
  then obtain self1 s2 where b: "pure (build_model_internal cls gr opts data weights noise) s1 = (Inr self1, s2)"
    and r: "then_do (on_session (session_run (env_evaluator env) Init_node []))
          (\<lambda>_. pure (Inr self1)) s2 = (Inr self, s)"
    by (rule then_do_Inr_result)
  from r obtain x s3 where "pure (Inr self1) s3 = (Inr self, s)" by (rule then_do_Inr_result)
  then have "self1 = self" by (simp add: pure_def)
  with b have "build_model_internal cls gr opts data weights noise = Inr self" by (simp add: pure_def)
  then show ?thesis by (rule build_model_internal_fresh)
qed

lemma sample_internal_run_batch:
  assumes "self_class self \<noteq> Gan"
  shows "sample_internal env self opts num =
    on_session (then_do (generate_noise env opts num)
      (\<lambda>noise. run_batch (env_evaluator env) opts (self_G self) (self_noise_ph self) noise
         (if self_class self = ImageGan then self_is_training_ph self else PyNone)
         (if self_class self = ImageGan then Some (FeedBool False) else None)))"
  using assms
  by (cases "self_class self")
     (simp_all add: sample_internal_def ToyGan_sample_internal_def ImageGan_sample_internal_def
        UnrolledGan_sample_internal_def)

text \<open>
  C4. For a model that \<open>__init__\<close> has built, after any calls of its public methods:
  as long as no \<open>train\<close> call has returned normally, \<open>sample\<close> raises the precondition
  error and leaves object and state as they are; once a \<open>train\<close> call has returned
  normally the flag is set and \<open>sample\<close> generates noise for the requested number of
  points and maps it through \<open>_run_batch\<close> with the generator.
\<close>

theorem sample_needs_completed_train:
  assumes "init env cls gr opts0 data weights s0 = (Inr self, s)"
    and "perform_all env calls (self, s) = (outs, self', s')"
  shows "(\<not> train_completed calls outs \<longrightarrow>
            sample env self' opts num s'
              = (Inl (AssertionError ''Can not sample from the un-trained GAN''), self', s'))
       \<and> (train_completed calls outs \<longrightarrow>
            self_trained self'
            \<and> sample env self' opts num s'
              = (case on_session (then_do (generate_noise env opts num)
                   (\<lambda>noise. run_batch (env_evaluator env) opts (self_G self') (self_noise_ph self')
                      noise
                      (if self_class self' = ImageGan then self_is_training_ph self' else PyNone)
                      (if self_class self' = ImageGan then Some (FeedBool False) else None))) s'
                 of (r, s'') \<Rightarrow> (r, self', s'')))"
proof -
  have f: "\<not> self_trained self" "self_class self \<noteq> Gan" using init_fresh[OF assms(1)] by simp_all
  have o: "self' = self\<lparr>self_trained := self_trained self \<or> train_completed calls outs\<rparr>"
    using assms(2) by (rule perform_all_object)
  have t: "self_trained self' = train_completed calls outs" using o f by simp
  have c: "self_class self' \<noteq> Gan" using o f by simp
  show ?thesis
    using t sample_internal_run_batch[OF c, of env opts num]
    by (simp add: sample_def)
qed

lemma mixture_minibatch_ignores_trained:
  "ToyGan_mixture_minibatch env (self\<lparr>self_trained := b\<rparr>) opts fake_images
     = ToyGan_mixture_minibatch env self opts fake_images"
  "ImageGan_mixture_minibatch env (self\<lparr>self_trained := b\<rparr>) opts fake_images
     = ImageGan_mixture_minibatch env self opts fake_images"
  "UnrolledGan_mixture_minibatch env (self\<lparr>self_trained := b\<rparr>) opts fake_images
     = UnrolledGan_mixture_minibatch env self opts fake_images"
  by (intro ext, simp add: ToyGan_mixture_minibatch_def ImageGan_mixture_minibatch_def
      UnrolledGan_mixture_minibatch_def)+

lemma internal_ignores_trained:
  "train_mixture_discriminator_internal env (self\<lparr>self_trained := b\<rparr>) opts fake_images
   = train_mixture_discriminator_internal env self opts fake_images"
proof (cases "self_class self")
  case Gan
  then show ?thesis by (simp add: train_mixture_discriminator_internal_def)
next
  case ToyGan
  then show ?thesis
    by (simp add: train_mixture_discriminator_internal_def
        ToyGan_train_mixture_discriminator_internal_def mixture_minibatch_ignores_trained)
next
  case ImageGan
  then show ?thesis
    by (simp add: train_mixture_discriminator_internal_def
        ImageGan_train_mixture_discriminator_internal_def mixture_minibatch_ignores_trained)
next
  case UnrolledGan
  then show ?thesis
    by (simp add: train_mixture_discriminator_internal_def
        UnrolledGan_train_mixture_discriminator_internal_def mixture_minibatch_ignores_trained)
qed

text \<open>
  C9. \<open>train_mixture_discriminator\<close> does not look at the trained flag: on an untrained
  model it is the subclass's classifier training, with the same outcome as on a trained
  one, where \<open>sample\<close> on the same untrained model raises the precondition error.
\<close>

theorem train_mixture_discriminator_unguarded:
  "train_mixture_discriminator env (self\<lparr>self_trained := False\<rparr>) opts fake_images s
     = (case train_mixture_discriminator_internal env self opts fake_images s of
          (r, s') \<Rightarrow> (r, self\<lparr>self_trained := False\<rparr>, s'))
   \<and> fst (train_mixture_discriminator env (self\<lparr>self_trained := False\<rparr>) opts fake_images s)
     = fst (train_mixture_discriminator env (self\<lparr>self_trained := True\<rparr>) opts fake_images s)
   \<and> fst (sample env (self\<lparr>self_trained := False\<rparr>) opts num s)
     = Inl (AssertionError ''Can not sample from the un-trained GAN'')"
  by (simp add: train_mixture_discriminator_def internal_ignores_trained sample_def
      split: prod.splits)


theorem sample_needs_completed_train_witness:
  "init example_env ImageGan example_graph example_opts example_data [1 / 4, 1 / 4, 1 / 4, 1 / 4]
       example_state
     = (Inr (example_gan ImageGan (Placeholder ''is_train'') (Leaf ''g_loss'')), example_state)
   \<and> sample example_env (example_gan ImageGan (Placeholder ''is_train'') (Leaf ''g_loss''))
       example_opts 3 example_state
     = (Inl (AssertionError ''Can not sample from the un-trained GAN''),
        example_gan ImageGan (Placeholder ''is_train'') (Leaf ''g_loss''), example_state)
   \<and> perform_all example_env [Sample example_opts 3, Train example_opts]
       (example_gan ImageGan (Placeholder ''is_train'') (Leaf ''g_loss''), example_state)
     = ([Raised (AssertionError ''Can not sample from the un-trained GAN''), Returned_None],
        (example_gan ImageGan (Placeholder ''is_train'') (Leaf ''g_loss''))\<lparr>self_trained := True\<rparr>,
        \<lparr>session = (), signals = 3\<rparr>)
   \<and> sample example_env
       ((example_gan ImageGan (Placeholder ''is_train'') (Leaf ''g_loss''))\<lparr>self_trained := True\<rparr>)
       example_opts 3 \<lparr>session = (), signals = 3\<rparr>
     = (Inr (Array [1] [[0], [0], [0]]),
        (example_gan ImageGan (Placeholder ''is_train'') (Leaf ''g_loss''))\<lparr>self_trained := True\<rparr>,
        \<lparr>session = (), signals = 3\<rparr>)"
proof -
  let ?g = "example_gan ImageGan (Placeholder ''is_train'') (Leaf ''g_loss'')"
  have i: "init example_env ImageGan example_graph example_opts example_data
             [1 / 4, 1 / 4, 1 / 4, 1 / 4] example_state = (Inr ?g, example_state)"
    by code_simp
  have p0: "perform_all example_env [] (?g, example_state) = ([], ?g, example_state)" by simp
  have p1: "perform_all example_env [Sample example_opts 3, Train example_opts] (?g, example_state)
     = ([Raised (AssertionError ''Can not sample from the un-trained GAN''), Returned_None],
        ?g\<lparr>self_trained := True\<rparr>, \<lparr>session = (), signals = 3\<rparr>)"
    by code_simp
  have r: "(case on_session (then_do (generate_noise example_env example_opts 3)
                   (\<lambda>noise. run_batch (env_evaluator example_env) example_opts
                      (self_G (?g\<lparr>self_trained := True\<rparr>)) (self_noise_ph (?g\<lparr>self_trained := True\<rparr>))
                      noise
                      (if self_class (?g\<lparr>self_trained := True\<rparr>) = ImageGan
                       then self_is_training_ph (?g\<lparr>self_trained := True\<rparr>) else PyNone)
                      (if self_class (?g\<lparr>self_trained := True\<rparr>) = ImageGan
                       then Some (FeedBool False) else None))) \<lparr>session = (), signals = 3\<rparr>
                 of (r, s'') \<Rightarrow> (r, ?g\<lparr>self_trained := True\<rparr>, s''))
       = (Inr (Array [1] [[0], [0], [0]]), ?g\<lparr>self_trained := True\<rparr>, \<lparr>session = (), signals = 3\<rparr>)"
    by code_simp
  from sample_needs_completed_train[OF i p0, of example_opts 3]
       sample_needs_completed_train[OF i p1, of example_opts 3] i p1 r
  show ?thesis by simp
qed

lemma train_mixture_discriminator_untrained_example:
  "train_mixture_discriminator example_env (example_gan ToyGan PyNone (Leaf ''g_loss''))
     example_opts (Array [2] [[1, 1], [0, 0]]) example_state
   = (Inr (Array [2] [[0, 1], [1, 0], [1, 1], [0, 0]]),
      example_gan ToyGan PyNone (Leaf ''g_loss''), \<lparr>session = (), signals = 1\<rparr>)"
  by code_simp

section \<open>The mode flag of UnrolledGan\<close>

lemma dict2_second_key:
  "\<not> is_tensor k2 \<Longrightarrow> \<not> list_all (\<lambda>kv. is_tensor (fst kv)) (dict2 k1 v1 k2 v2)"
  by (simp add: dict2_def)

lemma session_run_bad_key:
  "\<not> list_all (\<lambda>kv. is_tensor (fst kv)) fd \<Longrightarrow>
   session_run ev fetch fd w = (Inl (TypeError ''Cannot interpret feed_dict key as Tensor''), w)"
  by (simp add: session_run_def)

lemma run_chunk_bad_key:
  assumes "\<not> is_tensor placeholder2"
  shows "run_chunk ev operation placeholder ts rs placeholder2 (Some f2) B bn idx w
    = (Inl (TypeError ''Cannot interpret feed_dict key as Tensor''), w)"
  by (simp add: run_chunk_def session_run_bad_key[OF dict2_second_key[OF assms]])

lemma run_batch_loop_bad_key:
  assumes "\<not> is_tensor placeholder2" "idxs \<noteq> []"
  shows "run_batch_loop ev operation placeholder ts rs placeholder2 (Some f2) B bn idxs w
    = (Inl (TypeError ''Cannot interpret feed_dict key as Tensor''), w)"
  using assms(2) by (cases idxs) (simp_all add: run_chunk_bad_key[OF assms(1)])

lemma run_batch_bad_key:
  assumes "\<not> is_tensor placeholder2"
  shows "\<exists>e. run_batch ev opts operation placeholder feed placeholder2 (Some f2) w = (Inl e, w)"
proof (cases feed)
  case (Scalar x)
  then show ?thesis by (simp add: run_batch_def)
next
  case (Array ts rs)
  let ?B = "opts_tf_run_batch_size opts"
  let ?bn = "\<lceil>real_of_int (int (length rs)) / real_of_int ?B\<rceil>"
  show ?thesis
  proof (cases "?B = 0")
    case True
    with Array show ?thesis by (simp add: run_batch_def)
  next
    case False
    show ?thesis
    proof (cases "xrange ?bn = []")
      case True
      with Array False show ?thesis by (simp add: run_batch_def Let_def)
    next
      case ne: False
      have "run_batch_loop ev operation placeholder ts rs placeholder2 (Some f2) ?B ?bn (xrange ?bn) w
         = (Inl (TypeError ''Cannot interpret feed_dict key as Tensor''), w)"
        using assms ne by (rule run_batch_loop_bad_key)
      with Array False show ?thesis by (simp add: run_batch_def Let_def)
    qed
  qed
qed

lemma run_batch_bad_key_TypeError:
  assumes "\<not> is_tensor placeholder2" "rs \<noteq> []" "1 \<le> opts_tf_run_batch_size opts"
  shows "run_batch ev opts operation placeholder (Array ts rs) placeholder2 (Some f2) w
    = (Inl (TypeError ''Cannot interpret feed_dict key as Tensor''), w)"
proof -
  define B where "B = opts_tf_run_batch_size opts"
  define bn where "bn = \<lceil>real_of_int (int (length rs)) / real_of_int B\<rceil>"
  have B: "0 < B" using assms(3) by (simp add: B_def)
  have "0 < int (length rs)" using assms(2) by simp
  with B have "0 < bn" unfolding bn_def by (rule batches_num_pos)
  then have ne: "xrange bn \<noteq> []" by (simp add: xrange_def)
  have l: "run_batch_loop ev operation placeholder ts rs placeholder2 (Some f2) B bn (xrange bn) w
         = (Inl (TypeError ''Cannot interpret feed_dict key as Tensor''), w)"
    using assms(1) ne by (rule run_batch_loop_bad_key)
  have bn_eq: "\<lceil>real (length rs) / real_of_int B\<rceil> = bn" by (simp add: bn_def)
  show ?thesis using B l by (simp add: run_batch_def Let_def B_def[symmetric] bn_eq)
qed

lemma then_do_always_Inl:
  assumes "\<And>x s. \<exists>e s'. f x s = (Inl e, s')"
  shows "\<exists>e s'. then_do m f s = (Inl e, s')"
proof -
  obtain r s1 where m: "m s = (r, s1)" by (cases "m s")
  show ?thesis
  proof (cases r)
    case (Inl e)
    with m show ?thesis by (simp add: then_do_def)
  next
    case (Inr x)
    with m assms[of x s1] show ?thesis by (simp add: then_do_def)
  qed
qed

lemma on_session_always_Inl:
  assumes "\<And>w. \<exists>e. f w = (Inl e, w)"
  shows "\<exists>e s'. on_session f s = (Inl e, s')"
proof -
  from assms[of "session s"] obtain e where "f (session s) = (Inl e, session s)" by blast
  then show ?thesis by (simp add: on_session_def)
qed

lemma unrolled_build_flag:
  assumes "build_model_internal UnrolledGan gr opts data weights noise = Inr self"
  shows "self_is_training_ph self = PyBool True"
  using assms
  by (cases "UnrolledGan_g_loss gr opts")
     (simp_all add: build_model_internal_def and_then_def, metis gan.select_convs(9))

lemma unrolled_minibatch_ignores_flag:
  "UnrolledGan_minibatch env (self\<lparr>self_is_training_ph := h\<rparr>) opts epoch
     = UnrolledGan_minibatch env self opts epoch"
  by (intro ext) (simp add: UnrolledGan_minibatch_def cong: if_cong)

text \<open>
  C10. In an UnrolledGan that the build has produced, the training-mode flag is the
  constant \<open>True\<close>, not a tensor of the graph. Its mixture-discriminator method feeds
  that constant (with the value \<open>False\<close>) as the second key of \<open>_run_batch\<close>: that
  evaluation raises for every input, for a non-empty input and a chunk size of at least
  1 the \<open>TypeError\<close> of the feed validation at the first chunk, nothing being evaluated,
  and so the method never returns a result. The sample and training-loop methods do not
  depend on the flag at all.
\<close>

theorem unrolled_mode_flag_is_constant:
  assumes "build_model_internal UnrolledGan gr opts0 data weights noise = Inr self"
  shows "self_is_training_ph self = PyBool True \<and> \<not> is_tensor (self_is_training_ph self)
    \<and> (\<exists>e s'. UnrolledGan_train_mixture_discriminator_internal env self opts fake_images s
                 = (Inl e, s'))
    \<and> (\<exists>e. run_batch (env_evaluator env) opts (self_c_training self) (self_real_points_ph self)
               feed (self_is_training_ph self) (Some (FeedBool False)) w = (Inl e, w))
    \<and> (rs \<noteq> [] \<and> 1 \<le> opts_tf_run_batch_size opts \<longrightarrow>
          run_batch (env_evaluator env) opts (self_c_training self) (self_real_points_ph self)
               (Array ts rs) (self_is_training_ph self) (Some (FeedBool False)) w
            = (Inl (TypeError ''Cannot interpret feed_dict key as Tensor''), w))
    \<and> UnrolledGan_sample_internal env (self\<lparr>self_is_training_ph := h\<rparr>) opts num
          = UnrolledGan_sample_internal env self opts num
    \<and> UnrolledGan_train_internal env (self\<lparr>self_is_training_ph := h\<rparr>) opts
          = UnrolledGan_train_internal env self opts"
proof -
  have flag: "self_is_training_ph self = PyBool True" using assms by (rule unrolled_build_flag)
  then have nt: "\<not> is_tensor (self_is_training_ph self)" by simp
  have final: "\<And>feed w. \<exists>e. run_batch (env_evaluator env) opts (self_c_training self)
       (self_real_points_ph self) feed (self_is_training_ph self) (Some (FeedBool False)) w = (Inl e, w)"
    using nt by (rule run_batch_bad_key)
  have mix: "\<exists>e s'. UnrolledGan_train_mixture_discriminator_internal env self opts fake_images s
                 = (Inl e, s')"
    unfolding UnrolledGan_train_mixture_discriminator_internal_def
    by (intro then_do_always_Inl on_session_always_Inl final)
  have ty: "rs \<noteq> [] \<and> 1 \<le> opts_tf_run_batch_size opts \<longrightarrow>
          run_batch (env_evaluator env) opts (self_c_training self) (self_real_points_ph self)
               (Array ts rs) (self_is_training_ph self) (Some (FeedBool False)) w
            = (Inl (TypeError ''Cannot interpret feed_dict key as Tensor''), w)"
  proof (intro impI, elim conjE)
    assume "rs \<noteq> []" "1 \<le> opts_tf_run_batch_size opts"
    with nt show "run_batch (env_evaluator env) opts (self_c_training self) (self_real_points_ph self)
               (Array ts rs) (self_is_training_ph self) (Some (FeedBool False)) w
            = (Inl (TypeError ''Cannot interpret feed_dict key as Tensor''), w)"
      by (rule run_batch_bad_key_TypeError)
  qed
  have sa: "UnrolledGan_sample_internal env (self\<lparr>self_is_training_ph := h\<rparr>) opts num
          = UnrolledGan_sample_internal env self opts num"
    by (simp add: UnrolledGan_sample_internal_def)
  have tr: "UnrolledGan_train_internal env (self\<lparr>self_is_training_ph := h\<rparr>) opts
          = UnrolledGan_train_internal env self opts"
    by (simp add: UnrolledGan_train_internal_def unrolled_minibatch_ignores_flag)
  show ?thesis by (intro conjI flag nt mix final ty sa tr)
qed


theorem unrolled_mode_flag_is_constant_witness:
  "build_model_internal UnrolledGan example_graph example_opts example_data
       [1 / 4, 1 / 4, 1 / 4, 1 / 4] (Array [1] (replicate 500 [0]))
     = Inr (example_gan UnrolledGan (PyBool True) example_unrolled_g_loss)
   \<and> self_is_training_ph (example_gan UnrolledGan (PyBool True) example_unrolled_g_loss) = PyBool True
   \<and> UnrolledGan_train_mixture_discriminator_internal example_env
       (example_gan UnrolledGan (PyBool True) example_unrolled_g_loss) example_opts
       (Array [2] [[1, 1], [0, 0]]) example_state
     = (Inl (TypeError ''Cannot interpret feed_dict key as Tensor''), \<lparr>session = (), signals = 1\<rparr>)
   \<and> run_batch echo_evaluator example_opts C_training_node (Placeholder ''real_points'')
       (Array [2] [[0, 1 :: real]]) (PyBool True) (Some (FeedBool False)) ()
     = (Inl (TypeError ''Cannot interpret feed_dict key as Tensor''), ())
   \<and> UnrolledGan_sample_internal example_env
       (example_gan UnrolledGan (PyBool True) example_unrolled_g_loss) example_opts 3 ()
     = (Inr (Array [1] [[0], [0], [0]]), ())
   \<and> UnrolledGan_train_internal example_env
       (example_gan UnrolledGan (PyBool True) example_unrolled_g_loss) example_opts example_state
     = (Inr (), \<lparr>session = (), signals = 3\<rparr>)"
proof -
  let ?u = "example_gan UnrolledGan (PyBool True) example_unrolled_g_loss"
  have b: "build_model_internal UnrolledGan example_graph example_opts example_data
       [1 / 4, 1 / 4, 1 / 4, 1 / 4] (Array [1] (replicate 500 [0])) = Inr ?u"
    by code_simp
  have m: "UnrolledGan_train_mixture_discriminator_internal example_env ?u example_opts
       (Array [2] [[1, 1], [0, 0]]) example_state
     = (Inl (TypeError ''Cannot interpret feed_dict key as Tensor''), \<lparr>session = (), signals = 1\<rparr>)"
    by code_simp
  have sa: "UnrolledGan_sample_internal example_env ?u example_opts 3 ()
     = (Inr (Array [1] [[0], [0], [0]]), ())"
    by code_simp
  have tr: "UnrolledGan_train_internal example_env ?u example_opts example_state
     = (Inr (), \<lparr>session = (), signals = 3\<rparr>)"
    by code_simp
  note T = unrolled_mode_flag_is_constant[OF b, of example_env example_opts
        "Array [2] [[1, 1], [0, 0]]" example_state "Array [2] [[0, 1]]" "()" "[[0, 1]]" "[2]" PyNone 3]
  have f: "self_is_training_ph ?u = PyBool True"
    using T by (rule conjunct1)
  have pre: "[[0, 1 :: real]] \<noteq> [] \<and> 1 \<le> opts_tf_run_batch_size example_opts"
    by (simp add: example_opts_def)
  have ty: "run_batch echo_evaluator example_opts C_training_node (Placeholder ''real_points'')
       (Array [2] [[0, 1 :: real]]) (PyBool True) (Some (FeedBool False)) ()
     = (Inl (TypeError ''Cannot interpret feed_dict key as Tensor''), ())"
    using T[THEN conjunct2, THEN conjunct2, THEN conjunct2, THEN conjunct2, THEN conjunct1,
            THEN mp, OF pre]
    by (simp add: example_gan_def example_env_def)
  show ?thesis by (intro conjI b f m ty sa tr)
qed

section \<open>The training loop of the image variants\<close>

lemma minibatch_result:
  "ImageGan_minibatch env self opts epoch idx counter w = (Inr cb, w') \<Longrightarrow>
     cb = (counter + 1, opts_early_stop opts > 0 \<and> counter + 1 > opts_early_stop opts)"
  "UnrolledGan_minibatch env self opts epoch idx counter w = (Inr cb, w') \<Longrightarrow>
     cb = (counter + 1, opts_early_stop opts > 0 \<and> counter + 1 > opts_early_stop opts)"
  unfolding ImageGan_minibatch_def UnrolledGan_minibatch_def
  by (elim then_do_Inr_result, simp add: pure_def)+

lemma for_loop_break_leaves:
  assumes "\<And>cb w'. body i c w = (Inr cb, w') \<Longrightarrow> snd cb"
  shows "for_loop_break (i # is) body c w = then_do (body i c) (\<lambda>cb. pure (Inr (fst cb))) w"
proof -
  obtain r w1 where b: "body i c w = (r, w1)" by (cases "body i c w")
  show ?thesis
  proof (cases r)
    case (Inl e)
    with b show ?thesis by (simp add: then_do_def)
  next
    case (Inr cb)
    with b assms[of cb w1] show ?thesis by (simp add: then_do_def pure_def)
  qed
qed

lemma on_session_signals:
  "on_session f s = (r, s') \<Longrightarrow> signals s' = signals s"
  by (cases "f (session s)") (simp add: on_session_def, metis state.select_convs(2) state.surjective state.update_convs(1))


lemma epoch_body_signals:
  assumes "then_do (on_session inner) (\<lambda>c'. then_do bam (\<lambda>_. pure (Inr c'))) s = (Inr c1, s1)"
  shows "signals s1 = Suc (signals s)"
proof -
  from assms obtain x s2 where o: "on_session inner s = (Inr x, s2)"
    and r: "then_do bam (\<lambda>_. pure (Inr x)) s2 = (Inr c1, s1)"
    by (rule then_do_Inr_result)
  have "signals s2 = signals s" using o by (rule on_session_signals)
  moreover have "signals s1 = Suc (signals s2)" using r by (simp add: then_do_def bam_def pure_def) (metis state.select_convs(2) state.surjective state.update_convs(2))
  ultimately show ?thesis by simp
qed

lemma epoch_loop_signals:
  "for_loop epochs (\<lambda>epoch counter. then_do (on_session (inner epoch counter))
       (\<lambda>c'. then_do bam (\<lambda>_. pure (Inr c')))) c s = (Inr c', s')
   \<Longrightarrow> signals s' = signals s + length epochs"
proof (induction epochs arbitrary: c s)
  case Nil
  then show ?case by simp
next
  case (Cons e epochs)
  from Cons.prems obtain c1 s1 where
    b: "then_do (on_session (inner e c)) (\<lambda>c'. then_do bam (\<lambda>_. pure (Inr c'))) s = (Inr c1, s1)"
    and r: "for_loop epochs (\<lambda>epoch counter. then_do (on_session (inner epoch counter))
       (\<lambda>c'. then_do bam (\<lambda>_. pure (Inr c')))) c1 s1 = (Inr c', s')"
    unfolding for_loop.simps by (rule then_do_Inr_result)
  have "signals s1 = Suc (signals s)" using b by (rule epoch_body_signals)
  moreover have "signals s' = signals s1 + length epochs" using r by (rule Cons.IH)
  ultimately show ?case by simp
qed

lemma for_loop_break_returns:
  assumes "\<And>i c w. \<exists>cb w'. body i c w = (Inr cb, w')"
  shows "\<exists>c' w'. for_loop_break is body c w = (Inr c', w')"
proof (induction "is" arbitrary: c w)
  case Nil
  then show ?case by simp
next
  case (Cons i "is")
  from assms[of i c w] obtain cb w1 where b: "body i c w = (Inr cb, w1)" by blast
  show ?case
  proof (cases "snd cb")
    case True
    with b show ?thesis by (simp add: then_do_def)
  next
    case False
    with b Cons.IH[of "fst cb" w1] show ?thesis by (simp add: then_do_def)
  qed
qed

lemma epoch_loop_returns:
  assumes "\<And>epoch counter w. \<exists>c' w'. inner epoch counter w = (Inr c', w')"
  shows "\<exists>c' s'. for_loop epochs (\<lambda>epoch counter. then_do (on_session (inner epoch counter))
       (\<lambda>c'. then_do bam (\<lambda>_. pure (Inr c')))) c s = (Inr c', s')"
proof (induction epochs arbitrary: c s)
  case Nil
  then show ?case by simp
next
  case (Cons e epochs)
  from assms[of e c "session s"] obtain c1 w1 where i: "inner e c (session s) = (Inr c1, w1)"
    by blast
  have b: "then_do (on_session (inner e c)) (\<lambda>c'. then_do bam (\<lambda>_. pure (Inr c'))) s
      = (Inr c1, s\<lparr>session := w1, signals := Suc (signals s)\<rparr>)"
    using i by (simp add: then_do_def on_session_def bam_def pure_def)
  show ?case
    using Cons.IH[of c1 "s\<lparr>session := w1, signals := Suc (signals s)\<rparr>"]
    by (simp add: then_do_Inr[where m = "then_do (on_session (inner e c))
          (\<lambda>c'. then_do bam (\<lambda>_. pure (Inr c')))" and s = s, OF b])
qed

lemma train_internal_signals:
  assumes "then_do (pure (py_div n b))
     (\<lambda>batches_num. then_do
        (for_loop (xrange epochs)
           (\<lambda>epoch counter. then_do (on_session (inner batches_num epoch counter))
              (\<lambda>counter'. then_do bam (\<lambda>_. pure (Inr counter'))))
           c0)
     (\<lambda>_. pure (Inr ()))) s = (Inr (), s')"
  shows "signals s' = signals s + nat epochs"
proof -
  from assms obtain bn s1 where p: "pure (py_div n b) s = (Inr bn, s1)"
    and r: "then_do
        (for_loop (xrange epochs)
           (\<lambda>epoch counter. then_do (on_session (inner bn epoch counter))
              (\<lambda>counter'. then_do bam (\<lambda>_. pure (Inr counter'))))
           c0)
     (\<lambda>_. pure (Inr ())) s1 = (Inr (), s')"
    by (rule then_do_Inr_result)
  from p have s1: "s1 = s" by (simp add: pure_def)
  from r obtain c2 s2 where l: "for_loop (xrange epochs)
           (\<lambda>epoch counter. then_do (on_session (inner bn epoch counter))
              (\<lambda>counter'. then_do bam (\<lambda>_. pure (Inr counter'))))
           c0 s1 = (Inr c2, s2)" and e: "pure (Inr ()) s2 = (Inr (), s')"
    by (rule then_do_Inr_result)
  from e have "s2 = s'" by (simp add: pure_def)
  with epoch_loop_signals[OF l] s1 show ?thesis by (simp add: xrange_def)
qed

lemma train_internal_returns:
  assumes "b \<noteq> 0" "\<And>bn epoch counter w. \<exists>c' w'. inner bn epoch counter w = (Inr c', w')"
  shows "\<exists>s'. then_do (pure (py_div n b))
     (\<lambda>batches_num. then_do
        (for_loop (xrange epochs)
           (\<lambda>epoch counter. then_do (on_session (inner batches_num epoch counter))
              (\<lambda>counter'. then_do bam (\<lambda>_. pure (Inr counter'))))
           c0)
     (\<lambda>_. pure (Inr ()))) s = (Inr (), s')"
proof -
  from epoch_loop_returns[of "inner (n div b)" "xrange epochs" c0 s, OF assms(2)]
  obtain c' s' where "for_loop (xrange epochs)
           (\<lambda>epoch counter. then_do (on_session (inner (n div b) epoch counter))
              (\<lambda>counter'. then_do bam (\<lambda>_. pure (Inr counter'))))
           c0 s = (Inr c', s')" by blast
  then show ?thesis using assms(1) by (simp add: then_do_def pure_def py_div_def)
qed


lemma example_minibatch_returns:
  "\<exists>cb w'. ImageGan_minibatch example_env
      (example_gan ImageGan (Placeholder ''is_train'') (Leaf ''g_loss'')) example_opts
      epoch idx counter w = (Inr cb, w')"
  by (simp add: ImageGan_minibatch_def example_env_def example_gan_def example_opts_def
      example_data_def np_random_choice_def generate_noise_def nd_take_def then_do_def pure_def
      xrange_def run_update_def session_run_def dict2_def dict3_def echo_evaluator_def
      list_all_iff)

section \<open>The rank of what \<open>_run_batch\<close> returns\<close>

lemma np_vstack_trailing:
  assumes "np_vstack result = Inr res" "list_all (\<lambda>a. fst (atleast_2d a) = os) result"
  shows "\<exists>rows. res = Array os rows"
  using assms by (cases result) (auto simp: Let_def split: if_splits)

lemma session_run_result:
  assumes "session_run ev operation fd w = (Inr res, w')"
  shows "\<exists>w0. ev w0 operation fd = (Inr res, w')"
  using assms
  by (auto simp: session_run_def split: if_splits prod.splits sum.splits)

lemma run_chunk_result:
  assumes "run_chunk ev operation placeholder ts rs placeholder2 feed2 b bn idx w = (Inr res, w')"
  shows "\<exists>w0 fd. ev w0 operation fd = (Inr res, w')"
proof -
  from assms obtain fd where "session_run ev operation fd w = (Inr res, w')"
    by (auto simp: run_chunk_def split: if_splits option.splits)
  from session_run_result[OF this] obtain w0 where "ev w0 operation fd = (Inr res, w')"
    by (elim exE)
  then show ?thesis by (intro exI)
qed

lemma keeps_trailing: "shape r \<noteq> [] \<Longrightarrow> tl (shape r) = os \<Longrightarrow> os \<noteq> [] \<Longrightarrow>
    fst (atleast_2d (if length (shape r) = 1 then reshape_column r else r)) = os"
  by (cases r rule: atleast_2d.cases) auto

lemma loop_trailing:
  assumes "\<And>w fd r w'. ev w operation fd = (Inr r, w') \<Longrightarrow> tl (shape r) = os \<and> shape r \<noteq> []"
    and "os \<noteq> []"
  shows "run_batch_loop ev operation placeholder ts rs placeholder2 feed2 b bn idxs w = (Inr result, w')
    \<Longrightarrow> list_all (\<lambda>a. fst (atleast_2d a) = os) result"
proof (induction idxs arbitrary: w result)
  case Nil
  then show ?case by simp
next
  case (Cons idx idxs)
  from Cons.prems obtain res w1 result1 where
    c: "run_chunk ev operation placeholder ts rs placeholder2 feed2 b bn idx w = (Inr res, w1)"
    and l: "run_batch_loop ev operation placeholder ts rs placeholder2 feed2 b bn idxs w1 = (Inr result1, w')"
    and r: "result = (if length (shape res) = 1 then reshape_column res else res) # result1"
    by (auto split: prod.splits sum.splits)
  from run_chunk_result[OF c] obtain w0 fd where "ev w0 operation fd = (Inr res, w1)"
    by (elim exE)
  from assms(1)[OF this] have t: "tl (shape res) = os" "shape res \<noteq> []" by simp_all
  have "fst (atleast_2d (if length (shape res) = 1 then reshape_column res else res)) = os"
    using t(2) t(1) assms(2) by (rule keeps_trailing)
  with Cons.IH[OF l] r show ?case by simp
qed

text \<open>
  C7, as amended. A chunk result of rank 1 is reshaped to a column before the vertical
  concatenation, and only such a result is: whatever \<open>_run_batch\<close> returns has rank at
  least 2; when the engine's results for the operation are of rank 1 the returned array
  has shape \<open>(N, 1)\<close>, one row per point; and when they are of rank 2 or more, with
  the dimensions \<open>os\<close> after the first, they are stacked as they are and the returned
  array has shape \<open>(N, os)\<close>, so a result of rank 3 or more keeps its rank.
\<close>

theorem run_batch_rank:
  assumes "run_batch ev opts operation placeholder feed placeholder2 feed2 w = (Inr res, w')"
  shows "2 \<le> length (shape res)
    \<and> ((\<forall>w fd r w'. ev w operation fd = (Inr r, w') \<longrightarrow> length (shape r) = 1)
         \<longrightarrow> shape res = [hd (shape feed), 1])
    \<and> (os \<noteq> [] \<and> (\<forall>w fd r w'. ev w operation fd = (Inr r, w')
                        \<longrightarrow> tl (shape r) = os \<and> shape r \<noteq> [])
         \<longrightarrow> shape res = hd (shape feed) # os)"
proof -
  from assms obtain ts rs result where f: "feed = Array ts rs"
    and l: "run_batch_loop ev operation placeholder ts rs placeholder2 feed2 (opts_tf_run_batch_size opts)
       \<lceil>real_of_int (int (length rs)) / real_of_int (opts_tf_run_batch_size opts)\<rceil>
       (xrange \<lceil>real_of_int (int (length rs)) / real_of_int (opts_tf_run_batch_size opts)\<rceil>) w
     = (Inr result, w')"
    and v: "np_vstack result = Inr res" and n: "hd (shape res) = length rs"
    by (rule run_batch_Inr)
  have a: "2 \<le> length (shape res)" using v by (rule np_vstack_rank)
  have b: "shape res = [hd (shape feed), 1]"
    if h: "\<forall>w fd r w'. ev w operation fd = (Inr r, w') \<longrightarrow> length (shape r) = 1"
  proof -
    have "list_all (\<lambda>a. fst (atleast_2d a) = [1]) result"
      using loop_rank1[OF _ l] h by blast
    with v obtain rows where "res = Array [1] rows" using np_vstack_columns by blast
    with n f show ?thesis by simp
  qed
  have c: "shape res = hd (shape feed) # os"
    if h: "os \<noteq> [] \<and> (\<forall>w fd r w'. ev w operation fd = (Inr r, w')
                        \<longrightarrow> tl (shape r) = os \<and> shape r \<noteq> [])"
  proof -
    have "list_all (\<lambda>a. fst (atleast_2d a) = os) result"
      using loop_trailing[OF _ _ l, of os] h by blast
    with v obtain rows where "res = Array os rows" using np_vstack_trailing by blast
    with n f show ?thesis by simp
  qed
  from a b c show ?thesis by blast
qed

theorem run_batch_rank_witness:
  "run_batch first_coordinate_evaluator example_opts G_node (Placeholder ''noise'')
     (Array [2] [[1, 2], [3, 4], [5, 6 :: int]]) PyNone None ()
     = (Inr (Array [1] [[1], [3], [5]]), ())
   \<and> shape (Array [1] [[1], [3], [5 :: int]]) = [hd (shape (Array [2] [[1, 2], [3, 4], [5, 6 :: int]])), 1]
   \<and> run_batch pixel_evaluator example_opts G_node (Placeholder ''noise'')
     (Array [2] [[1, 2], [3, 4], [5, 6 :: int]]) PyNone None ()
     = (Inr (Array [1, 1] [[1], [3], [5]]), ())
   \<and> shape (Array [1, 1] [[1], [3], [5 :: int]])
     = hd (shape (Array [2] [[1, 2], [3, 4], [5, 6 :: int]])) # [1, 1]
   \<and> 2 \<le> length (shape (Array [1, 1] [[1], [3], [5 :: int]]))"
proof -
  have run1: "run_batch first_coordinate_evaluator example_opts G_node (Placeholder ''noise'')
     (Array [2] [[1, 2], [3, 4], [5, 6 :: int]]) PyNone None ()
     = (Inr (Array [1] [[1], [3], [5]]), ())"
    by code_simp
  have rank1: "\<forall>w fd r w'. (first_coordinate_evaluator :: (unit, int) evaluator) w G_node fd = (Inr r, w')
      \<longrightarrow> length (shape r) = 1"
    by (auto simp: first_coordinate_evaluator_def
        split: list.splits feed_value.splits ndarray.splits)
  have run3: "run_batch pixel_evaluator example_opts G_node (Placeholder ''noise'')
     (Array [2] [[1, 2], [3, 4], [5, 6 :: int]]) PyNone None ()
     = (Inr (Array [1, 1] [[1], [3], [5]]), ())"
    by code_simp
  have rank3: "[1, 1 :: nat] \<noteq> [] \<and> (\<forall>w fd r w'.
      (pixel_evaluator :: (unit, int) evaluator) w G_node fd = (Inr r, w')
      \<longrightarrow> tl (shape r) = [1, 1] \<and> shape r \<noteq> [])"
    by (auto simp: pixel_evaluator_def
        split: list.splits feed_value.splits ndarray.splits)
  have 1: "shape (Array [1] [[1], [3], [5 :: int]])
      = [hd (shape (Array [2] [[1, 2], [3, 4], [5, 6 :: int]])), 1]"
    using run_batch_rank[OF run1, THEN conjunct2, THEN conjunct1, THEN mp, OF rank1] .
  have 3: "shape (Array [1, 1] [[1], [3], [5 :: int]])
      = hd (shape (Array [2] [[1, 2], [3, 4], [5, 6 :: int]])) # [1, 1]"
    using run_batch_rank[OF run3, THEN conjunct2, THEN conjunct2, THEN mp, OF rank3] .
  have 2: "2 \<le> length (shape (Array [1, 1] [[1], [3], [5 :: int]]))"
    using run_batch_rank[OF run3, THEN conjunct1] .
  show ?thesis by (intro conjI run1 1 run3 3 2)
qed

section \<open>Chunked and unchunked evaluation\<close>









section \<open>Early stop in the training loop\<close>

lemma minibatches_run_break:
  "0 < early \<Longrightarrow> early < c + 1 \<Longrightarrow> minibatches_run early c (Suc n) = 1"
  by (simp add: minibatches_run_def)

lemma minibatches_run_continue:
  "\<not> (0 < early \<and> early < c + 1) \<Longrightarrow>
   minibatches_run early c (Suc n) = Suc (minibatches_run early (c + 1) n)"
  by (auto simp: minibatches_run_def min_def max_def)

lemma for_loop_break_take:
  assumes res: "\<And>i c w cb w'. body i c w = (Inr cb, w') \<Longrightarrow>
                  cb = (c + 1, 0 < early \<and> early < c + 1)"
  shows "for_loop_break idxs body c w
    = for_loop (take (minibatches_run early c (length idxs)) idxs)
        (\<lambda>i c. then_do (body i c) (\<lambda>cb. pure (Inr (fst cb)))) c w"
proof (induction idxs arbitrary: c w)
  case Nil
  then show ?case by simp
next
  case (Cons i idxs)
  obtain r w1 where b: "body i c w = (r, w1)" by (cases "body i c w")
  show ?case
  proof (cases r)
    case (Inl e)
    show ?thesis
    proof (cases "0 < early \<and> early < c + 1")
      case True
      with b Inl show ?thesis by (simp add: minibatches_run_break then_do_def)
    next
      case False
      with b Inl show ?thesis by (simp add: minibatches_run_continue then_do_def)
    qed
  next
    case (Inr cb)
    with b have cb: "cb = (c + 1, 0 < early \<and> early < c + 1)" using res by simp
    show ?thesis
    proof (cases "0 < early \<and> early < c + 1")
      case True
      then have cb': "cb = (c + 1, True)" using cb by simp
      have k: "minibatches_run early c (length (i # idxs)) = 1"
        using True by (simp add: minibatches_run_break)
      from b Inr cb' show ?thesis unfolding k
        by (simp add: then_do_def pure_def)
    next
      case False
      then have cb': "cb = (c + 1, False)" using cb by simp
      have k: "minibatches_run early c (length (i # idxs))
          = Suc (minibatches_run early (c + 1) (length idxs))"
        using False by (simp add: minibatches_run_continue)
      from b Inr cb' Cons.IH[of "c + 1" w1] show ?thesis unfolding k
        by (simp add: then_do_def pure_def)
    qed
  qed
qed


lemma trainable_minibatch_returns:
  "\<exists>cb w'. ImageGan_minibatch trainable_env
      (example_gan ImageGan (Placeholder ''is_train'') (Leaf ''g_loss'')) example_opts
      epoch idx counter w = (Inr cb, w')"
  by (simp add: ImageGan_minibatch_def trainable_env_def example_gan_def example_opts_def
      example_data_def np_random_choice_def generate_noise_def nd_take_def then_do_def pure_def
      xrange_def run_update_def session_run_def dict2_def dict3_def trainable_evaluator_def
      list_all_iff)

text \<open>
  C6. The training of ImageGan and UnrolledGan is, for every engine: the loop over all
  \<open>gan_epoch_num\<close> epochs, none left early, each running its minibatches only up to
  and including the first after which the update counter exceeds a positive early-stop
  count (\<open>minibatches_run\<close> of them: all without such a count, one only once the counter
  has passed it) and then signalling the progress bar. A minibatch that succeeds adds one
  to the counter and asks for the break exactly when the early-stop count is positive
  and the counter exceeds it. So a training that returns has signalled \<open>gan_epoch_num\<close>
  times, and it returns when the batch size is not zero and no minibatch step fails.
\<close>

theorem early_stop_only_leaves_inner_loop:
  assumes cls: "self_class self = ImageGan \<or> self_class self = UnrolledGan"
    and mb: "minibatch = (if self_class self = ImageGan then ImageGan_minibatch env self opts
                          else UnrolledGan_minibatch env self opts)"
  shows "train_internal env self opts =
           then_do (pure (py_div (data_num_points (self_data self)) (opts_batch_size opts)))
           (\<lambda>batches_num. then_do
              (for_loop (xrange (opts_gan_epoch_num opts))
                 (\<lambda>epoch counter. then_do
                    (on_session (for_loop
                       (take (minibatches_run (opts_early_stop opts) counter (nat batches_num))
                             (xrange batches_num))
                       (\<lambda>idx c. then_do (minibatch epoch idx c) (\<lambda>cb. pure (Inr (fst cb))))
                       counter))
                    (\<lambda>counter'. then_do bam (\<lambda>_. pure (Inr counter'))))
                 0)
           (\<lambda>_. pure (Inr ())))
       \<and> (\<forall>epoch idx counter w cb w'. minibatch epoch idx counter w = (Inr cb, w') \<longrightarrow>
            cb = (counter + 1, 0 < opts_early_stop opts \<and> opts_early_stop opts < counter + 1))
       \<and> (\<forall>s'. train_internal env self opts s = (Inr (), s') \<longrightarrow>
            signals s' = signals s + nat (opts_gan_epoch_num opts))
       \<and> (opts_batch_size opts \<noteq> 0
            \<and> (\<forall>epoch idx counter w. \<exists>cb w'. minibatch epoch idx counter w = (Inr cb, w')) \<longrightarrow>
            (\<exists>s'. train_internal env self opts s = (Inr (), s')))"
proof -
  have res: "\<And>epoch idx counter w cb w'. minibatch epoch idx counter w = (Inr cb, w') \<Longrightarrow>
      cb = (counter + 1, 0 < opts_early_stop opts \<and> opts_early_stop opts < counter + 1)"
  proof -
    fix epoch idx counter w cb w'
    assume m: "minibatch epoch idx counter w = (Inr cb, w')"
    show "cb = (counter + 1, 0 < opts_early_stop opts \<and> opts_early_stop opts < counter + 1)"
    proof (cases "self_class self = ImageGan")
      case True
      with m have "ImageGan_minibatch env self opts epoch idx counter w = (Inr cb, w')"
        by (simp add: mb)
      then show ?thesis by (rule minibatch_result(1))
    next
      case False
      with m have "UnrolledGan_minibatch env self opts epoch idx counter w = (Inr cb, w')"
        by (simp add: mb)
      then show ?thesis by (rule minibatch_result(2))
    qed
  qed
  have ti: "train_internal env self opts =
     then_do (pure (py_div (data_num_points (self_data self)) (opts_batch_size opts)))
     (\<lambda>batches_num. then_do
        (for_loop (xrange (opts_gan_epoch_num opts))
           (\<lambda>epoch counter. then_do
              (on_session (for_loop_break (xrange batches_num) (minibatch epoch) counter))
              (\<lambda>counter'. then_do bam (\<lambda>_. pure (Inr counter'))))
           0)
     (\<lambda>_. pure (Inr ())))"
    using cls unfolding mb
    by (cases "self_class self")
       (simp_all add: train_internal_def ImageGan_train_internal_def UnrolledGan_train_internal_def)
  have tk: "\<And>epoch bn counter. for_loop_break (xrange bn) (minibatch epoch) counter
      = for_loop (take (minibatches_run (opts_early_stop opts) counter (nat bn)) (xrange bn))
          (\<lambda>idx c. then_do (minibatch epoch idx c) (\<lambda>cb. pure (Inr (fst cb)))) counter"
  proof -
    fix epoch bn counter
    have "length (xrange bn) = nat bn" by (simp add: xrange_def)
    then show "for_loop_break (xrange bn) (minibatch epoch) counter
      = for_loop (take (minibatches_run (opts_early_stop opts) counter (nat bn)) (xrange bn))
          (\<lambda>idx c. then_do (minibatch epoch idx c) (\<lambda>cb. pure (Inr (fst cb)))) counter"
      using for_loop_break_take[of "minibatch epoch" "opts_early_stop opts" "xrange bn" counter, OF res]
      by (intro ext) simp
  qed
  have 1: "train_internal env self opts =
           then_do (pure (py_div (data_num_points (self_data self)) (opts_batch_size opts)))
           (\<lambda>batches_num. then_do
              (for_loop (xrange (opts_gan_epoch_num opts))
                 (\<lambda>epoch counter. then_do
                    (on_session (for_loop
                       (take (minibatches_run (opts_early_stop opts) counter (nat batches_num))
                             (xrange batches_num))
                       (\<lambda>idx c. then_do (minibatch epoch idx c) (\<lambda>cb. pure (Inr (fst cb))))
                       counter))
                    (\<lambda>counter'. then_do bam (\<lambda>_. pure (Inr counter'))))
                 0)
           (\<lambda>_. pure (Inr ())))"
    unfolding ti tk by (rule refl)
  have 2: "\<forall>epoch idx counter w cb w'. minibatch epoch idx counter w = (Inr cb, w') \<longrightarrow>
            cb = (counter + 1, 0 < opts_early_stop opts \<and> opts_early_stop opts < counter + 1)"
    by (intro allI impI) (rule res)
  have 3: "\<forall>s'. train_internal env self opts s = (Inr (), s') \<longrightarrow>
            signals s' = signals s + nat (opts_gan_epoch_num opts)"
  proof (intro allI impI)
    fix s' assume "train_internal env self opts s = (Inr (), s')"
    then show "signals s' = signals s + nat (opts_gan_epoch_num opts)"
      unfolding ti by (rule train_internal_signals)
  qed
  have 4: "opts_batch_size opts \<noteq> 0
            \<and> (\<forall>epoch idx counter w. \<exists>cb w'. minibatch epoch idx counter w = (Inr cb, w')) \<longrightarrow>
            (\<exists>s'. train_internal env self opts s = (Inr (), s'))"
  proof (intro impI, elim conjE)
    assume b: "opts_batch_size opts \<noteq> 0"
      and m: "\<forall>epoch idx counter w. \<exists>cb w'. minibatch epoch idx counter w = (Inr cb, w')"
    have inner: "\<And>bn epoch counter w. \<exists>c' w'.
        for_loop_break (xrange bn) (minibatch epoch) counter w = (Inr c', w')"
      by (rule for_loop_break_returns) (use m in blast)
    show "\<exists>s'. train_internal env self opts s = (Inr (), s')"
      unfolding ti
      by (rule train_internal_returns[where inner = "\<lambda>bn epoch counter.
            for_loop_break (xrange bn) (minibatch epoch) counter", OF b inner])
  qed
  show ?thesis by (intro conjI 1 2 3 4)
qed

theorem early_stop_only_leaves_inner_loop_witness:
  "minibatches_run (opts_early_stop example_opts) 0 2 = 2
   \<and> minibatches_run (opts_early_stop example_opts) 2 2 = 1
   \<and> train_internal trainable_env
       (example_gan ImageGan (Placeholder ''is_train'') (Leaf ''g_loss'')) example_opts
       \<lparr>session = 0, signals = 0\<rparr>
     = (Inr (), \<lparr>session = 8, signals = 3\<rparr>)
   \<and> ImageGan_minibatch trainable_env
       (example_gan ImageGan (Placeholder ''is_train'') (Leaf ''g_loss'')) example_opts 1 0 2 4
     = (Inr (3, True), 6)
   \<and> (\<exists>s'. train_internal trainable_env
       (example_gan ImageGan (Placeholder ''is_train'') (Leaf ''g_loss'')) example_opts
       \<lparr>session = 0, signals = 0\<rparr>
     = (Inr (), s') \<and> signals s' = 0 + nat (opts_gan_epoch_num example_opts))"
proof -
  let ?g = "example_gan ImageGan (Placeholder ''is_train'') (Leaf ''g_loss'')"
  let ?s = "\<lparr>session = 0 :: nat, signals = 0\<rparr>"
  have cls: "self_class ?g = ImageGan \<or> self_class ?g = UnrolledGan"
    by (simp add: example_gan_def)
  have mb: "ImageGan_minibatch trainable_env ?g example_opts
      = (if self_class ?g = ImageGan then ImageGan_minibatch trainable_env ?g example_opts
         else UnrolledGan_minibatch trainable_env ?g example_opts)"
    by (simp add: example_gan_def)
  note T = early_stop_only_leaves_inner_loop[where s = ?s, OF cls mb]
  have m1: "minibatches_run (opts_early_stop example_opts) 0 2 = 2"
    and m2: "minibatches_run (opts_early_stop example_opts) 2 2 = 1"
    by (simp_all add: minibatches_run_def example_opts_def)
  have run: "train_internal trainable_env ?g example_opts ?s = (Inr (), \<lparr>session = 8, signals = 3\<rparr>)"
    unfolding T[THEN conjunct1] by code_simp
  have one: "ImageGan_minibatch trainable_env ?g example_opts 1 0 2 4 = (Inr (3, True), 6)"
  proof -
    from trainable_minibatch_returns[of 1 0 2 4] obtain cb w' where
      r: "ImageGan_minibatch trainable_env ?g example_opts 1 0 2 4 = (Inr cb, w')"
      by (elim exE)
    from T[THEN conjunct2, THEN conjunct1, THEN spec, THEN spec, THEN spec, THEN spec,
           THEN spec, THEN spec, THEN mp, OF r]
    have "cb = (3, True)" by (simp add: example_opts_def)
    moreover have "snd (ImageGan_minibatch trainable_env ?g example_opts 1 0 2 4) = 6"
      by code_simp
    ultimately show ?thesis using r by simp
  qed
  have pre: "opts_batch_size example_opts \<noteq> 0
      \<and> (\<forall>epoch idx counter w. \<exists>cb w'.
            ImageGan_minibatch trainable_env ?g example_opts epoch idx counter w = (Inr cb, w'))"
    using trainable_minibatch_returns by (simp add: example_opts_def)
  from T[THEN conjunct2, THEN conjunct2, THEN conjunct2, THEN mp, OF pre]
  obtain s' where r: "train_internal trainable_env ?g example_opts ?s = (Inr (), s')"
    by (elim exE)
  from T[THEN conjunct2, THEN conjunct2, THEN conjunct1, THEN spec, THEN mp, OF r]
  have "signals s' = 0 + nat (opts_gan_epoch_num example_opts)" by simp
  with r have 5: "\<exists>s'. train_internal trainable_env ?g example_opts ?s = (Inr (), s')
      \<and> signals s' = 0 + nat (opts_gan_epoch_num example_opts)"
    by (intro exI conjI)
  show ?thesis by (intro conjI m1 m2 run one 5)
qed

section \<open>The mixture classifier\<close>



















end
